theory Spec2Isabelle
  imports Complex_Main
begin

section \<open>Numbers\<close>

text \<open>
  The program computes with JavaScript numbers. Vector and matrix entries are modelled
  as reals: rounding, overflow and the sign of zero are not represented. The one place
  where the source divides by a value that the scene can make zero is the parameter of
  a recorded intersection; its result is modelled with the three non-finite doubles made
  explicit. A zero divisor counts as positive zero.
\<close>

datatype jsnum = Fin real | PosInfinity | NegInfinity | NaN

definition jsdiv :: "real \<Rightarrow> real \<Rightarrow> jsnum" where
  "jsdiv a b =
     (if b \<noteq> 0 then Fin (a / b)
      else if a = 0 then NaN
      else if 0 < a then PosInfinity
      else NegInfinity)"

fun jsless :: "jsnum \<Rightarrow> jsnum \<Rightarrow> bool" where
  "jsless NaN _ = False"
| "jsless _ NaN = False"
| "jsless (Fin a) (Fin b) = (a < b)"
| "jsless (Fin _) PosInfinity = True"
| "jsless (Fin _) NegInfinity = False"
| "jsless NegInfinity (Fin _) = True"
| "jsless NegInfinity PosInfinity = True"
| "jsless NegInfinity NegInfinity = False"
| "jsless PosInfinity _ = False"

fun isFinite :: "jsnum \<Rightarrow> bool" where
  "isFinite (Fin _) = True"
| "isFinite _ = False"

text \<open>
  A store into the \<open>Uint8ClampedArray\<close> of an \<open>ImageData\<close>: the value is clamped
  to 0..255 and rounded to the nearest integer, ties to even.
\<close>

definition toUint8Clamp :: "real \<Rightarrow> nat" where
  "toUint8Clamp v =
     (if v \<le> 0 then 0
      else if 255 \<le> v then 255
      else (let f = \<lfloor>v\<rfloor>; d = v - of_int f in
            if d < 1 / 2 then nat f
            else if 1 / 2 < d then nat (f + 1)
            else if even f then nat f else nat (f + 1)))"

section \<open>Geometry kernel\<close>

text \<open>
  Modelled from the spec: the class \<open>Vector\<close> of \<open>math/vector\<close> is not among the
  sources. A vector is a homogeneous 4-tuple \<open>(x, y, z, w)\<close>, also read as a colour
  \<open>(r, g, b)\<close>.
\<close>

datatype Vector = Vector (vec_x: real) (vec_y: real) (vec_z: real) (vec_w: real)

abbreviation vec_r :: "Vector \<Rightarrow> real" where "vec_r \<equiv> vec_x"
abbreviation vec_g :: "Vector \<Rightarrow> real" where "vec_g \<equiv> vec_y"
abbreviation vec_b :: "Vector \<Rightarrow> real" where "vec_b \<equiv> vec_z"

text \<open>
  Modelled from the spec: \<open>Vector.mul\<close> (the product with a number), the dot product,
  the length and \<open>Vector.normalize\<close>, which divides by the length so that a direction
  becomes unit-length.
\<close>

definition vec_mul :: "Vector \<Rightarrow> real \<Rightarrow> Vector" where
  "vec_mul v k = Vector (vec_x v * k) (vec_y v * k) (vec_z v * k) (vec_w v * k)"

definition dot :: "Vector \<Rightarrow> Vector \<Rightarrow> real" where
  "dot a b = vec_x a * vec_x b + vec_y a * vec_y b + vec_z a * vec_z b + vec_w a * vec_w b"

definition vec_length :: "Vector \<Rightarrow> real" where
  "vec_length v = sqrt (dot v v)"

definition normalize :: "Vector \<Rightarrow> Vector" where
  "normalize v =
     Vector (vec_x v / vec_length v) (vec_y v / vec_length v)
            (vec_z v / vec_length v) (vec_w v / vec_length v)"

text \<open>
  Modelled from the spec: the class \<open>Matrix\<close> of \<open>math/matrix\<close> is not among the
  sources. A matrix is a 4x4 affine transform in homogeneous coordinates, kept here as
  its four rows; \<open>Matrix.identity\<close>, \<open>Matrix.translation\<close> and \<open>Matrix.scaling\<close>
  build the usual matrices from the x, y and z of their argument, \<open>mulVec\<close> is the
  product of a matrix with a column vector and \<open>mul\<close> the product of two matrices.
\<close>

datatype Matrix = Matrix (row0: Vector) (row1: Vector) (row2: Vector) (row3: Vector)

definition identity :: "Matrix" where
  "identity = Matrix (Vector 1 0 0 0) (Vector 0 1 0 0) (Vector 0 0 1 0) (Vector 0 0 0 1)"

definition translation :: "Vector \<Rightarrow> Matrix" where
  "translation v =
     Matrix (Vector 1 0 0 (vec_x v)) (Vector 0 1 0 (vec_y v))
            (Vector 0 0 1 (vec_z v)) (Vector 0 0 0 1)"

definition scaling :: "Vector \<Rightarrow> Matrix" where
  "scaling v =
     Matrix (Vector (vec_x v) 0 0 0) (Vector 0 (vec_y v) 0 0)
            (Vector 0 0 (vec_z v) 0) (Vector 0 0 0 1)"

definition col0 :: "Matrix \<Rightarrow> Vector" where
  "col0 m = Vector (vec_x (row0 m)) (vec_x (row1 m)) (vec_x (row2 m)) (vec_x (row3 m))"

definition col1 :: "Matrix \<Rightarrow> Vector" where
  "col1 m = Vector (vec_y (row0 m)) (vec_y (row1 m)) (vec_y (row2 m)) (vec_y (row3 m))"

definition col2 :: "Matrix \<Rightarrow> Vector" where
  "col2 m = Vector (vec_z (row0 m)) (vec_z (row1 m)) (vec_z (row2 m)) (vec_z (row3 m))"

definition col3 :: "Matrix \<Rightarrow> Vector" where
  "col3 m = Vector (vec_w (row0 m)) (vec_w (row1 m)) (vec_w (row2 m)) (vec_w (row3 m))"

definition mulVec :: "Matrix \<Rightarrow> Vector \<Rightarrow> Vector" where
  "mulVec m v = Vector (dot (row0 m) v) (dot (row1 m) v) (dot (row2 m) v) (dot (row3 m) v)"

definition rowMul :: "Vector \<Rightarrow> Matrix \<Rightarrow> Vector" where
  "rowMul r m = Vector (dot r (col0 m)) (dot r (col1 m)) (dot r (col2 m)) (dot r (col3 m))"

definition mul :: "Matrix \<Rightarrow> Matrix \<Rightarrow> Matrix" where
  "mul a b = Matrix (rowMul (row0 a) b) (rowMul (row1 a) b) (rowMul (row2 a) b) (rowMul (row3 a) b)"

text \<open>Two matrices are true inverses of each other when both products are the identity.\<close>

definition inverses :: "Matrix \<Rightarrow> Matrix \<Rightarrow> bool" where
  "inverses a b \<longleftrightarrow> mul a b = identity \<and> mul b a = identity"

section \<open>Transform model (math/transformation.ts)\<close>

text \<open>
  \<open>MatrixTransformation\<close> holds a matrix and its stored inverse; \<open>getMatrix\<close> and
  \<open>getInverseMatrix\<close> return the two fields. The subclasses add their private
  parameter. Each setter stores the parameter and calls \<open>recalculate\<close>.
  \<open>Rotation\<close> and \<open>SQT\<close> are built from \<open>Matrix.rotation\<close> and from the class
  \<open>Quaternion\<close>, which are not among the sources; they are not part of this model.
\<close>

record MatrixTransformation =
  tr_matrix :: Matrix
  tr_inverse :: Matrix

definition getMatrix :: "'a MatrixTransformation_scheme \<Rightarrow> Matrix" where
  "getMatrix t = tr_matrix t"

definition getInverseMatrix :: "'a MatrixTransformation_scheme \<Rightarrow> Matrix" where
  "getInverseMatrix t = tr_inverse t"

record Translation = MatrixTransformation +
  translationVector :: Vector

definition new_Translation :: "Vector \<Rightarrow> Translation" where
  "new_Translation v =
     \<lparr> tr_matrix = translation v,
       tr_inverse = translation (vec_mul v (- 1)),
       translationVector = v \<rparr>"

definition Translation_recalculate :: "Translation \<Rightarrow> Translation" where
  "Translation_recalculate t =
     t \<lparr> tr_matrix := translation (translationVector t),
         tr_inverse := translation (vec_mul (translationVector t) (- 1)) \<rparr>"

definition set_translationVector :: "Vector \<Rightarrow> Translation \<Rightarrow> Translation" where
  "set_translationVector v t = Translation_recalculate (t \<lparr> translationVector := v \<rparr>)"

record Scaling = MatrixTransformation +
  scaleVector :: Vector

definition new_Scaling :: "Vector \<Rightarrow> Scaling" where
  "new_Scaling s =
     \<lparr> tr_matrix = scaling s,
       tr_inverse = scaling (Vector (1 / vec_x s) (1 / vec_y s) (1 / vec_z s) 0),
       scaleVector = s \<rparr>"

definition Scaling_recalculate :: "Scaling \<Rightarrow> Scaling" where
  "Scaling_recalculate t =
     t \<lparr> tr_matrix := scaling (scaleVector t),
         tr_inverse := scaling (vec_mul (scaleVector t) (- 1)) \<rparr>"

definition set_scale :: "Vector \<Rightarrow> Scaling \<Rightarrow> Scaling" where
  "set_scale s t = Scaling_recalculate (t \<lparr> scaleVector := s \<rparr>)"

text \<open>
  The distance of a matrix product from the identity, as the largest absolute
  difference of the diagonal entries the scalings below can change.
\<close>

definition diagError :: "Matrix \<Rightarrow> real" where
  "diagError m =
     Max {\<bar>vec_x (row0 m) - 1\<bar>, \<bar>vec_y (row1 m) - 1\<bar>, \<bar>vec_z (row2 m) - 1\<bar>, \<bar>vec_w (row3 m) - 1\<bar>}"

section \<open>Scene graph and visitor state\<close>

text \<open>
  Modelled from the spec: the node classes of \<open>nodes\<close> are not among the sources.
  The datatype lists the kinds the \<open>Visitor\<close> interface dispatches on, with the fields the ray visitor
  reads: a group's transform and children, a shape's colour (which a scene may leave
  undefined) and a custom shape's buffers. A tree of this datatype is acyclic.
\<close>

datatype Node =
    GroupNode MatrixTransformation "Node list"
  | SphereNode "Vector option"
  | AABoxNode "Vector option"
  | PyramidNode "Vector option"
  | CustomShapeNode "real list" "nat list" "Vector option"
  | TextureBoxNode
  | TextureVideoBoxNode
  | TextureTextBoxNode
  | TexturePyramidNode
  | CameraNode
  | LightNode

record Ray =
  ray_origin :: Vector
  ray_direction :: Vector

record Intersection =
  isect_t :: jsnum
  isect_point :: Vector
  isect_normal :: Vector

text \<open>
  Modelled from the spec: \<open>Intersection.closerThan\<close> of \<open>math/intersection\<close> is not
  among the sources. A is closer than B iff \<open>A.t < B.t\<close>.
\<close>

definition closerThan :: "Intersection \<Rightarrow> Intersection \<Rightarrow> bool" where
  "closerThan a b = jsless (isect_t a) (isect_t b)"

record CameraRaytracer =
  cam_origin :: Vector
  cam_width :: real
  cam_height :: real
  cam_alpha :: real
  cam_toWorld :: Matrix

record CameraArg =
  arg_origin :: Vector
  arg_width :: real
  arg_height :: real
  arg_alpha :: real

record PhongValues =
  ambient :: real
  diffuse :: real
  specular :: real
  shininess :: real

datatype UnitObject =
    Sphere Vector real Vector
  | AABox Vector Vector Vector
  | Pyramid Vector Vector Vector Vector Vector Vector
  | CustomShape "real list" "nat list" Vector

definition UNIT_SPHERE :: UnitObject where
  "UNIT_SPHERE = Sphere (Vector 0 0 0 1) 1 (Vector 0 0 0 1)"

definition UNIT_AABOX :: UnitObject where
  "UNIT_AABOX =
     AABox (Vector (- 0.5) (- 0.5) (- 0.5) 1) (Vector 0.5 0.5 0.5 1) (Vector 0 0 0 1)"

definition UNIT_PYRAMID :: UnitObject where
  "UNIT_PYRAMID =
     Pyramid (Vector (- 0.5) 0 (- 0.5) 1) (Vector (- 0.5) 0 0.5 1) (Vector 0.5 0 (- 0.5) 1)
             (Vector 0.5 0 0.5 1) (Vector 0 1 0 1) (Vector 0 0 0 1)"

text \<open>
  The functions the visitor calls whose code is not among the sources are parameters:
  the \<open>intersect\<close> method of the unit objects, \<open>Ray.makeRay\<close> and \<open>phong\<close>.
\<close>

record Env =
  intersect :: "UnitObject \<Rightarrow> Ray \<Rightarrow> Intersection option"
  makeRay :: "real \<Rightarrow> real \<Rightarrow> CameraRaytracer \<Rightarrow> Ray"
  phong :: "Vector \<Rightarrow> Intersection \<Rightarrow> Vector list \<Rightarrow> PhongValues \<Rightarrow> Vector \<Rightarrow> Vector"

record ImageData =
  img_width :: nat
  img_height :: nat
  img_data :: "nat list"

text \<open>
  The fields of \<open>RayVisitor\<close>. A field that the source leaves undefined until it is
  first assigned is an option; \<open>canvas\<close> is what \<open>putImageData\<close> has shown last.
\<close>

record RayVisitor =
  imageData :: ImageData
  canvas :: "nat list"
  transformations :: "Matrix list"
  inverseTransformations :: "Matrix list"
  intersection :: "Intersection option"
  intersectionColor :: "Vector option"
  ray :: "Ray option"
  camera :: "CameraRaytracer option"
  lightPositions :: "Vector list"
  objectIntersections :: "(Intersection \<times> Ray \<times> Node) list"
  cur_x :: nat
  cur_y :: nat

datatype error = TypeError

text \<open>\<open>xs[xs.length - 1]\<close>: undefined on an empty array.\<close>

definition top :: "'a list \<Rightarrow> 'a option" where
  "top xs = (if xs = [] then None else Some (last xs))"

section \<open>Ray visitor (raytracing/rayvisitor.ts)\<close>

text \<open>
  Line 162: the ray handed to the unit object, the visitor's ray taken through the
  inverse matrix on top of the stack. Lines 167 to 169: the intersection that is
  compared and stored; its parameter is a quotient of x coordinates.
\<close>

definition objectRay :: "Matrix \<Rightarrow> Ray \<Rightarrow> Ray" where
  "objectRay fromWorld this_ray =
     \<lparr> ray_origin = mulVec fromWorld (ray_origin this_ray),
       ray_direction = normalize (mulVec fromWorld (ray_direction this_ray)) \<rparr>"

definition worldIntersection :: "Matrix \<Rightarrow> Ray \<Rightarrow> Intersection \<Rightarrow> Intersection" where
  "worldIntersection toWorld r hit =
     (let intersectionPointWorld = mulVec toWorld (isect_point hit);
          intersectionNormalWorld = normalize (mulVec toWorld (isect_normal hit))
      in \<lparr> isect_t = jsdiv (vec_x intersectionPointWorld - vec_x (ray_origin r))
                            (vec_x (ray_direction r)),
           isect_point = intersectionPointWorld,
           isect_normal = intersectionNormalWorld \<rparr>)"

definition visitNode ::
  "Env \<Rightarrow> Node \<Rightarrow> Vector option \<Rightarrow> UnitObject \<Rightarrow> RayVisitor \<Rightarrow> error + RayVisitor" where
  "visitNode env node color unitObject v =
     (case top (inverseTransformations v) of
        None \<Rightarrow> Inl TypeError
      | Some fromWorld \<Rightarrow>
          (case ray v of
             None \<Rightarrow> Inl TypeError
           | Some this_ray \<Rightarrow>
               (let r = objectRay fromWorld this_ray
                in case intersect env unitObject r of
                     None \<Rightarrow> Inr v
                   | Some hit \<Rightarrow>
                       (case top (transformations v) of
                          None \<Rightarrow> Inl TypeError
                        | Some toWorld \<Rightarrow>
                            (let v1 = v \<lparr> objectIntersections :=
                                            objectIntersections v @ [(hit, r, node)] \<rparr>;
                                 new = worldIntersection toWorld r hit
                             in if (case intersection v1 of
                                      None \<Rightarrow> True
                                    | Some best \<Rightarrow> closerThan new best)
                                then Inr (v1 \<lparr> intersection := Some new,
                                              intersectionColor := color \<rparr>)
                                else Inr v1)))))"

definition visitCameraNode :: "Env \<Rightarrow> RayVisitor \<Rightarrow> error + RayVisitor" where
  "visitCameraNode env v =
     (case top (transformations v) of
        None \<Rightarrow> Inl TypeError
      | Some toWorld \<Rightarrow>
          (let cam = \<lparr> cam_origin = mulVec toWorld (Vector 0 0 0 1),
                       cam_width = 100,
                       cam_height = 100,
                       cam_alpha = pi / 3,
                       cam_toWorld = toWorld \<rparr>
           in Inr (v \<lparr> camera := Some cam,
                       ray := Some (makeRay env (real (cur_x v)) (real (cur_y v)) cam) \<rparr>)))"

definition visitLightNode :: "RayVisitor \<Rightarrow> error + RayVisitor" where
  "visitLightNode v =
     (case top (transformations v) of
        None \<Rightarrow> Inl TypeError
      | Some toWorld \<Rightarrow>
          Inr (v \<lparr> lightPositions := lightPositions v @ [mulVec toWorld (Vector 0 0 0 1)] \<rparr>))"

text \<open>The two pushes that open \<open>visitGroupNode\<close> and the two pops that close it.\<close>

definition pushGroup :: "MatrixTransformation \<Rightarrow> RayVisitor \<Rightarrow> error + RayVisitor" where
  "pushGroup tr v =
     (case top (transformations v) of
        None \<Rightarrow> Inl TypeError
      | Some t \<Rightarrow>
          (case top (inverseTransformations v) of
             None \<Rightarrow> Inl TypeError
           | Some ti \<Rightarrow>
               Inr (v \<lparr> transformations := transformations v @ [mul t (getMatrix tr)],
                         inverseTransformations :=
                           inverseTransformations v @ [mul (getInverseMatrix tr) ti] \<rparr>)))"

definition popGroup :: "RayVisitor \<Rightarrow> RayVisitor" where
  "popGroup v =
     v \<lparr> transformations := butlast (transformations v),
         inverseTransformations := butlast (inverseTransformations v) \<rparr>"

text \<open>
  Modelled from the spec: \<open>node.accept(visitor)\<close>, which is not among the sources, is
  the double dispatch on the kind of the node; each kind calls its method of the
  \<open>Visitor\<close> interface. The equation for a group is the body of \<open>visitGroupNode\<close>,
  and \<open>acceptAll\<close> is its loop over the children. An exception leaves the traversal at once: the
  source has no handler, so the pops of the enclosing groups do not run.
\<close>

fun accept :: "Env \<Rightarrow> Node \<Rightarrow> RayVisitor \<Rightarrow> error + RayVisitor"
  and acceptAll :: "Env \<Rightarrow> Node list \<Rightarrow> RayVisitor \<Rightarrow> error + RayVisitor" where
  "accept env (GroupNode tr children) v =
     (case pushGroup tr v of
        Inl e \<Rightarrow> Inl e
      | Inr v1 \<Rightarrow>
          (case acceptAll env children v1 of
             Inl e \<Rightarrow> Inl e
           | Inr v2 \<Rightarrow> Inr (popGroup v2)))"
| "accept env (SphereNode c) v = visitNode env (SphereNode c) c UNIT_SPHERE v"
| "accept env (PyramidNode c) v = visitNode env (PyramidNode c) c UNIT_PYRAMID v"
| "accept env (AABoxNode c) v = visitNode env (AABoxNode c) c UNIT_AABOX v"
| "accept env TextureBoxNode v = Inr v"
| "accept env TextureVideoBoxNode v = Inr v"
| "accept env TextureTextBoxNode v = Inr v"
| "accept env TexturePyramidNode v = Inr v"
| "accept env (CustomShapeNode vs is c) v =
     visitNode env (CustomShapeNode vs is c) c (CustomShape vs is (Vector 0 0 0 1)) v"
| "accept env CameraNode v = visitCameraNode env v"
| "accept env LightNode v = visitLightNode v"
| "acceptAll env [] v = Inr v"
| "acceptAll env (n # ns) v =
     (case accept env n v of
        Inl e \<Rightarrow> Inl e
      | Inr v1 \<Rightarrow> acceptAll env ns v1)"

definition visitGroupNode ::
  "Env \<Rightarrow> MatrixTransformation \<Rightarrow> Node list \<Rightarrow> RayVisitor \<Rightarrow> error + RayVisitor" where
  "visitGroupNode env tr children v = accept env (GroupNode tr children) v"

subsection \<open>render\<close>

definition setData :: "nat \<Rightarrow> nat \<Rightarrow> RayVisitor \<Rightarrow> RayVisitor" where
  "setData i b v = v \<lparr> imageData := (imageData v) \<lparr> img_data := (img_data (imageData v)) [i := b] \<rparr> \<rparr>"

text \<open>Lines 89 to 97: the state every pixel starts from.\<close>

definition resetPixel :: "nat \<Rightarrow> nat \<Rightarrow> RayVisitor \<Rightarrow> RayVisitor" where
  "resetPixel x y v =
     v \<lparr> cur_x := x, cur_y := y,
         objectIntersections := [],
         transformations := [identity],
         inverseTransformations := [identity],
         lightPositions := [],
         intersection := None \<rparr>"

text \<open>Lines 101 to 114: what is stored for the pixel once the tree has been visited.\<close>

definition writePixel ::
  "Env \<Rightarrow> PhongValues \<Rightarrow> nat \<Rightarrow> nat \<Rightarrow> nat \<Rightarrow> RayVisitor \<Rightarrow> error + RayVisitor" where
  "writePixel env phongValues width x y v =
     (case intersection v of
        None \<Rightarrow> Inr v
      | Some i \<Rightarrow>
          (case intersectionColor v of
             None \<Rightarrow>
               Inr (setData (4 * (width * y + x) + 3) 255
                   (setData (4 * (width * y + x) + 2) 0
                   (setData (4 * (width * y + x) + 1) 0
                   (setData (4 * (width * y + x) + 0) 0 v))))
           | Some c \<Rightarrow>
               (case camera v of
                  None \<Rightarrow> Inl TypeError
                | Some cam \<Rightarrow>
                    (let color = phong env c i (lightPositions v) phongValues (cam_origin cam)
                     in Inr (setData (4 * (width * y + x) + 3) 255
                            (setData (4 * (width * y + x) + 2) (toUint8Clamp (vec_b color * 255))
                            (setData (4 * (width * y + x) + 1) (toUint8Clamp (vec_g color * 255))
                            (setData (4 * (width * y + x) + 0) (toUint8Clamp (vec_r color * 255))
                               v))))))))"

definition renderPixel ::
  "Env \<Rightarrow> Node \<Rightarrow> PhongValues \<Rightarrow> nat \<Rightarrow> nat \<Rightarrow> nat \<Rightarrow> RayVisitor \<Rightarrow> error + RayVisitor" where
  "renderPixel env rootNode phongValues width x y v =
     (case accept env rootNode (resetPixel x y v) of
        Inl e \<Rightarrow> Inl e
      | Inr v1 \<Rightarrow> writePixel env phongValues width x y v1)"

fun loopY ::
  "Env \<Rightarrow> Node \<Rightarrow> PhongValues \<Rightarrow> nat \<Rightarrow> nat \<Rightarrow> nat list \<Rightarrow> RayVisitor \<Rightarrow> error + RayVisitor" where
  "loopY env rootNode phongValues width x [] v = Inr v"
| "loopY env rootNode phongValues width x (y # ys) v =
     (case renderPixel env rootNode phongValues width x y v of
        Inl e \<Rightarrow> Inl e
      | Inr v1 \<Rightarrow> loopY env rootNode phongValues width x ys v1)"

fun loopX ::
  "Env \<Rightarrow> Node \<Rightarrow> PhongValues \<Rightarrow> nat \<Rightarrow> nat \<Rightarrow> nat list \<Rightarrow> RayVisitor \<Rightarrow> error + RayVisitor" where
  "loopX env rootNode phongValues width height [] v = Inr v"
| "loopX env rootNode phongValues width height (x # xs) v =
     (case loopY env rootNode phongValues width x [0..<height] v of
        Inl e \<Rightarrow> Inl e
      | Inr v1 \<Rightarrow> loopX env rootNode phongValues width height xs v1)"

text \<open>\<open>data.fill(0)\<close>.\<close>

definition clearData :: "RayVisitor \<Rightarrow> RayVisitor" where
  "clearData v =
     v \<lparr> imageData := (imageData v) \<lparr> img_data := replicate (length (img_data (imageData v))) 0 \<rparr> \<rparr>"

definition putImageData :: "RayVisitor \<Rightarrow> RayVisitor" where
  "putImageData v = v \<lparr> canvas := img_data (imageData v) \<rparr>"

definition render ::
  "Env \<Rightarrow> Node \<Rightarrow> CameraArg \<Rightarrow> Vector list \<Rightarrow> PhongValues \<Rightarrow> RayVisitor \<Rightarrow> error + RayVisitor" where
  "render env rootNode cameraArg lightPositionsArg phongValues v =
     (let v0 = clearData v;
          width = img_width (imageData v0);
          height = img_height (imageData v0)
      in case loopX env rootNode phongValues width height [0..<width] v0 of
           Inl e \<Rightarrow> Inl e
         | Inr v1 \<Rightarrow> Inr (putImageData v1))"

text \<open>
  The constructor reads the image data of the canvas; every other field is still
  undefined. The arrays that \<open>render\<close> assigns before their first use start empty.
\<close>

definition new_RayVisitor :: "nat list \<Rightarrow> nat \<Rightarrow> nat \<Rightarrow> RayVisitor" where
  "new_RayVisitor pixels width height =
     \<lparr> imageData = \<lparr> img_width = width, img_height = height, img_data = pixels \<rparr>,
       canvas = pixels,
       transformations = [],
       inverseTransformations = [],
       intersection = None,
       intersectionColor = None,
       ray = None,
       camera = None,
       lightPositions = [],
       objectIntersections = [],
       cur_x = 0,
       cur_y = 0 \<rparr>"

text \<open>The four bytes of pixel \<open>(x, y)\<close> in a buffer of the given width.\<close>

definition pixelAt :: "nat \<Rightarrow> nat list \<Rightarrow> nat \<Rightarrow> nat \<Rightarrow> nat \<times> nat \<times> nat \<times> nat" where
  "pixelAt width d x y =
     (d ! (4 * (width * y + x)), d ! (4 * (width * y + x) + 1),
      d ! (4 * (width * y + x) + 2), d ! (4 * (width * y + x) + 3))"

section \<open>Notions used to state the properties\<close>

text \<open>
  What holds between a state and the state a visit returns: the visit has put back
  both stacks and has not touched the image, the canvas or the pixel coordinates.
\<close>

definition frame :: "RayVisitor \<Rightarrow> RayVisitor \<Rightarrow> bool" where
  "frame v v' \<longleftrightarrow>
     transformations v' = transformations v \<and>
     inverseTransformations v' = inverseTransformations v \<and>
     imageData v' = imageData v \<and> canvas v' = canvas v \<and>
     cur_x v' = cur_x v \<and> cur_y v' = cur_y v"







text \<open>
  The camera record that \<open>visitCameraNode\<close> assigns when the matrix on top of the
  stack is \<open>toWorld\<close>, and the top matrix at the last camera node of a tree in
  visiting order, when the top matrix is \<open>t\<close> on entry.
\<close>

definition cameraAt :: "Matrix \<Rightarrow> CameraRaytracer" where
  "cameraAt toWorld =
     \<lparr> cam_origin = mulVec toWorld (Vector 0 0 0 1), cam_width = 100, cam_height = 100,
       cam_alpha = pi / 3, cam_toWorld = toWorld \<rparr>"

fun lastCamera :: "Matrix \<Rightarrow> Node \<Rightarrow> Matrix option"
  and lastCameraAll :: "Matrix \<Rightarrow> Node list \<Rightarrow> Matrix option" where
  "lastCamera t (GroupNode tr children) = lastCameraAll (mul t (getMatrix tr)) children"
| "lastCamera t CameraNode = Some t"
| "lastCamera t LightNode = None"
| "lastCamera t (SphereNode c) = None"
| "lastCamera t (AABoxNode c) = None"
| "lastCamera t (PyramidNode c) = None"
| "lastCamera t (CustomShapeNode vs is c) = None"
| "lastCamera t TextureBoxNode = None"
| "lastCamera t TextureVideoBoxNode = None"
| "lastCamera t TextureTextBoxNode = None"
| "lastCamera t TexturePyramidNode = None"
| "lastCameraAll t [] = None"
| "lastCameraAll t (n # ns) =
     (case lastCameraAll t ns of Some m \<Rightarrow> Some m | None \<Rightarrow> lastCamera t n)"

text \<open>
  The world positions of the light nodes below a node, in visiting order, when the
  matrix on top of the stack is \<open>t\<close> on entry.
\<close>

fun lightsOf :: "Matrix \<Rightarrow> Node \<Rightarrow> Vector list"
  and lightsOfAll :: "Matrix \<Rightarrow> Node list \<Rightarrow> Vector list" where
  "lightsOf t (GroupNode tr children) = lightsOfAll (mul t (getMatrix tr)) children"
| "lightsOf t LightNode = [mulVec t (Vector 0 0 0 1)]"
| "lightsOf t (SphereNode c) = []"
| "lightsOf t (AABoxNode c) = []"
| "lightsOf t (PyramidNode c) = []"
| "lightsOf t (CustomShapeNode vs is c) = []"
| "lightsOf t TextureBoxNode = []"
| "lightsOf t TextureVideoBoxNode = []"
| "lightsOf t TextureTextBoxNode = []"
| "lightsOf t TexturePyramidNode = []"
| "lightsOf t CameraNode = []"
| "lightsOfAll t [] = []"
| "lightsOfAll t (n # ns) = lightsOf t n @ lightsOfAll t ns"

text \<open>
  The state in which \<open>render\<close> reaches pixel \<open>(x, y)\<close>: the columns before \<open>x\<close>
  are done, and the rows before \<open>y\<close> of column \<open>x\<close>. \<open>traversalAt\<close> is the state
  when the visit of the tree for that pixel has returned.
\<close>

definition stateBefore ::
  "Env \<Rightarrow> Node \<Rightarrow> PhongValues \<Rightarrow> nat \<Rightarrow> nat \<Rightarrow> nat \<Rightarrow> nat \<Rightarrow> RayVisitor \<Rightarrow> error + RayVisitor" where
  "stateBefore env rootNode phongValues width height x y v0 =
     (case loopX env rootNode phongValues width height [0..<x] v0 of
        Inl e \<Rightarrow> Inl e
      | Inr v1 \<Rightarrow> loopY env rootNode phongValues width x [0..<y] v1)"

definition traversalAt ::
  "Env \<Rightarrow> Node \<Rightarrow> PhongValues \<Rightarrow> nat \<Rightarrow> nat \<Rightarrow> nat \<Rightarrow> nat \<Rightarrow> RayVisitor \<Rightarrow> error + RayVisitor" where
  "traversalAt env rootNode phongValues width height x y v0 =
     (case stateBefore env rootNode phongValues width height x y v0 of
        Inl e \<Rightarrow> Inl e
      | Inr v1 \<Rightarrow> accept env rootNode (resetPixel x y v1))"

text \<open>
  The parameter as the specification words it: the offset between the world-space hit
  point and the origin of the world-space ray, divided by the matching component of
  the direction of the world-space ray.
\<close>

definition spec_worldT :: "Ray \<Rightarrow> Vector \<Rightarrow> jsnum" where
  "spec_worldT worldRay worldPoint =
     jsdiv (vec_x worldPoint - vec_x (ray_origin worldRay)) (vec_x (ray_direction worldRay))"

text \<open>The alpha byte of pixel \<open>(x, y)\<close>, and an image that has kept its size.\<close>

definition alphaAt :: "nat \<Rightarrow> nat list \<Rightarrow> nat \<Rightarrow> nat \<Rightarrow> nat" where
  "alphaAt width d x y = d ! (4 * (width * y + x) + 3)"

definition sameImageSize :: "RayVisitor \<Rightarrow> RayVisitor \<Rightarrow> bool" where
  "sameImageSize v v' \<longleftrightarrow>
     img_width (imageData v') = img_width (imageData v) \<and>
     img_height (imageData v') = img_height (imageData v) \<and>
     length (img_data (imageData v')) = length (img_data (imageData v))"


text \<open>Readings of a result, for statements about concrete runs.\<close>

definition storedT :: "error + RayVisitor \<Rightarrow> jsnum option" where
  "storedT r = (case r of Inl e \<Rightarrow> None | Inr v \<Rightarrow> map_option isect_t (intersection v))"

definition storedPoint :: "error + RayVisitor \<Rightarrow> Vector option" where
  "storedPoint r = (case r of Inl e \<Rightarrow> None | Inr v \<Rightarrow> map_option isect_point (intersection v))"

definition storedColor :: "error + RayVisitor \<Rightarrow> Vector option" where
  "storedColor r = (case r of Inl e \<Rightarrow> None | Inr v \<Rightarrow> intersectionColor v)"

definition shownCanvas :: "error + RayVisitor \<Rightarrow> nat list option" where
  "shownCanvas r = (case r of Inl e \<Rightarrow> None | Inr v \<Rightarrow> Some (canvas v))"

definition storedLights :: "error + RayVisitor \<Rightarrow> Vector list option" where
  "storedLights r = (case r of Inl e \<Rightarrow> None | Inr v \<Rightarrow> Some (lightPositions v))"

definition storedCamera :: "error + RayVisitor \<Rightarrow> CameraRaytracer option" where
  "storedCamera r = (case r of Inl e \<Rightarrow> None | Inr v \<Rightarrow> camera v)"

definition stackDepths :: "error + RayVisitor \<Rightarrow> (nat \<times> nat) option" where
  "stackDepths r =
     (case r of
        Inl e \<Rightarrow> None
      | Inr v \<Rightarrow> Some (length (transformations v), length (inverseTransformations v)))"

section \<open>Example scenes\<close>

text \<open>
  An \<open>intersect\<close> that agrees with the unit sphere on the rays of the examples: a ray
  along the x axis towards the centre from \<open>x < -1\<close>, and a ray along the negative z
  axis towards the centre from \<open>z > 1\<close>. Every other ray and object misses.
\<close>

definition exampleIntersect :: "UnitObject \<Rightarrow> Ray \<Rightarrow> Intersection option" where
  "exampleIntersect u r =
     (if u \<noteq> UNIT_SPHERE then None
      else if ray_direction r = Vector 1 0 0 0 \<and> vec_y (ray_origin r) = 0
              \<and> vec_z (ray_origin r) = 0 \<and> vec_x (ray_origin r) < - 1
      then Some \<lparr> isect_t = Fin (- vec_x (ray_origin r) - 1),
                  isect_point = Vector (- 1) 0 0 1,
                  isect_normal = Vector (- 1) 0 0 0 \<rparr>
      else if ray_direction r = Vector 0 0 (- 1) 0 \<and> vec_x (ray_origin r) = 0
              \<and> vec_y (ray_origin r) = 0 \<and> 1 < vec_z (ray_origin r)
      then Some \<lparr> isect_t = Fin (vec_z (ray_origin r) - 1),
                  isect_point = Vector 0 0 1 1,
                  isect_normal = Vector 0 0 1 0 \<rparr>
      else None)"

text \<open>
  The camera of the examples looks from its origin straight down the negative z axis
  of its frame at every pixel; shading returns the material colour.
\<close>

definition exampleEnv :: Env where
  "exampleEnv =
     \<lparr> intersect = exampleIntersect,
       makeRay = (\<lambda>x y cam.
          \<lparr> ray_origin = cam_origin cam,
            ray_direction = normalize (mulVec (cam_toWorld cam) (Vector 0 0 (- 1) 0)) \<rparr>),
       phong = (\<lambda>c i ls pv eye. c) \<rparr>"

text \<open>Another shading function, white whatever it is given.\<close>

definition otherPhong ::
  "Vector \<Rightarrow> Intersection \<Rightarrow> Vector list \<Rightarrow> PhongValues \<Rightarrow> Vector \<Rightarrow> Vector" where
  "otherPhong c i ls pv eye = Vector 1 1 1 1"

text \<open>
  A shading function that reports what it is handed: red when the light list is the
  one light at the world origin, green when the eye is the world origin.
\<close>

definition probePhong ::
  "Vector \<Rightarrow> Intersection \<Rightarrow> Vector list \<Rightarrow> PhongValues \<Rightarrow> Vector \<Rightarrow> Vector" where
  "probePhong c i ls pv eye =
     Vector (if ls = [Vector 0 0 0 1] then 1 else 0) (if eye = Vector 0 0 0 1 then 1 else 0) 0 1"

definition probeEnv :: Env where
  "probeEnv = exampleEnv \<lparr> phong := probePhong \<rparr>"

definition examplePhong :: PhongValues where
  "examplePhong = \<lparr> ambient = 0.8, diffuse = 0.5, specular = 0.5, shininess = 10 \<rparr>"

definition exampleCamera :: CameraArg where
  "exampleCamera =
     \<lparr> arg_origin = Vector 0 0 0 1, arg_width = 1, arg_height = 1, arg_alpha = pi / 3 \<rparr>"

definition otherCamera :: CameraArg where
  "otherCamera =
     \<lparr> arg_origin = Vector 9 9 9 1, arg_width = 640, arg_height = 480, arg_alpha = 1 \<rparr>"

text \<open>A one-pixel canvas that shows grey before the first render.\<close>

definition onePixel :: RayVisitor where
  "onePixel = new_RayVisitor [7, 7, 7, 7] 1 1"

definition trOf :: "Translation \<Rightarrow> MatrixTransformation" where
  "trOf t = \<lparr> tr_matrix = getMatrix t, tr_inverse = getInverseMatrix t \<rparr>"

text \<open>The scene of the spec's end-to-end example: a camera and a sphere five units ahead.\<close>

definition sphereScene :: Node where
  "sphereScene =
     GroupNode (trOf (new_Translation (Vector 0 0 0 0)))
       [CameraNode, LightNode,
        GroupNode (trOf (new_Translation (Vector 0 0 (- 5) 0)))
          [SphereNode (Some (Vector 0.5 0 0 1))]]"


definition emptyScene :: Node where
  "emptyScene = GroupNode (trOf (new_Translation (Vector 0 0 0 0))) [CameraNode]"


text \<open>
  Two world rays from the world origin, along the x axis and along the negative z axis,
  and a visitor that holds the first.
\<close>

definition xRay :: Ray where
  "xRay = \<lparr> ray_origin = Vector 0 0 0 1, ray_direction = Vector 1 0 0 0 \<rparr>"

definition zRay :: Ray where
  "zRay = \<lparr> ray_origin = Vector 0 0 0 1, ray_direction = Vector 0 0 (- 1) 0 \<rparr>"

definition xRayVisitor :: RayVisitor where
  "xRayVisitor = (resetPixel 0 0 onePixel) \<lparr> ray := Some xRay \<rparr>"

text \<open>The stacks as they are inside a group that translates by \<open>d\<close>.\<close>

definition underGroup :: "Vector \<Rightarrow> RayVisitor \<Rightarrow> RayVisitor" where
  "underGroup d v =
     v \<lparr> transformations := transformations v @ [translation d],
         inverseTransformations := inverseTransformations v @ [translation (vec_mul d (- 1))] \<rparr>"

text \<open>
  Inside the group of a sphere moved three units along x, after a red sphere has been
  recorded there; and inside the group of a sphere five units down the negative z axis.
\<close>

definition redHit :: Intersection where
  "redHit = \<lparr> isect_t = Fin 5, isect_point = Vector 2 0 0 1, isect_normal = Vector (- 1) 0 0 0 \<rparr>"

definition tieVisitor :: RayVisitor where
  "tieVisitor =
     (underGroup (Vector 3 0 0 0) xRayVisitor)
       \<lparr> intersection := Some redHit, intersectionColor := Some (Vector 1 0 0 1) \<rparr>"

definition zRayVisitor :: RayVisitor where
  "zRayVisitor = underGroup (Vector 0 0 (- 5) 0) ((resetPixel 0 0 onePixel) \<lparr> ray := Some zRay \<rparr>)"

text \<open>A unit sphere moved three units along x.\<close>

definition movedSphere :: Node where
  "movedSphere =
     GroupNode (trOf (new_Translation (Vector 3 0 0 0))) [SphereNode (Some (Vector 0.5 0 0 1))]"


definition colourlessScene :: Node where
  "colourlessScene =
     GroupNode (trOf (new_Translation (Vector 0 0 0 0)))
       [CameraNode,
        GroupNode (trOf (new_Translation (Vector 0 0 (- 5) 0))) [SphereNode None]]"

section \<open>Facts about the geometry kernel\<close>

lemma mul_identity_left: "mul identity m = m"
  by (cases m; cases "row0 m"; cases "row1 m"; cases "row2 m"; cases "row3 m")
     (simp add: mul_def rowMul_def dot_def identity_def col0_def col1_def col2_def col3_def)

lemma mul_identity_right: "mul m identity = m"
  by (cases m; cases "row0 m"; cases "row1 m"; cases "row2 m"; cases "row3 m")
     (simp add: mul_def rowMul_def dot_def identity_def col0_def col1_def col2_def col3_def)

lemma rowMul_assoc: "rowMul (rowMul r a) b = rowMul r (mul a b)"
  by (simp add: mul_def rowMul_def dot_def col0_def col1_def col2_def col3_def algebra_simps)

lemma mul_assoc: "mul (mul a b) c = mul a (mul b c)"
proof -
  have rows: "row0 (mul a b) = rowMul (row0 a) b" "row1 (mul a b) = rowMul (row1 a) b"
    "row2 (mul a b) = rowMul (row2 a) b" "row3 (mul a b) = rowMul (row3 a) b"
    by (simp_all add: mul_def)
  have "mul (mul a b) c =
      Matrix (rowMul (rowMul (row0 a) b) c) (rowMul (rowMul (row1 a) b) c)
             (rowMul (rowMul (row2 a) b) c) (rowMul (rowMul (row3 a) b) c)"
    unfolding mul_def [of "mul a b" c] rows ..
  also have "\<dots> = mul a (mul b c)"
    unfolding rowMul_assoc mul_def [of a "mul b c"] ..
  finally show ?thesis .
qed

lemma inverses_compose:
  assumes "inverses a ai" and "inverses m mi"
  shows "inverses (mul a m) (mul mi ai)"
proof -
  have "mul (mul a m) (mul mi ai) = mul a (mul (mul m mi) ai)"
    by (simp add: mul_assoc)
  moreover have "mul (mul mi ai) (mul a m) = mul mi (mul (mul ai a) m)"
    by (simp add: mul_assoc)
  ultimately show ?thesis
    using assms by (simp add: inverses_def mul_identity_left mul_identity_right)
qed

lemma inverses_identity: "inverses identity identity"
  by (simp add: inverses_def mul_identity_left)

lemma translation_inverses: "inverses (translation v) (translation (vec_mul v (- 1)))"
  by (simp add: inverses_def mul_def rowMul_def dot_def identity_def translation_def vec_mul_def
      col0_def col1_def col2_def col3_def)

lemma new_Translation_inverses:
  "inverses (getMatrix (new_Translation v)) (getInverseMatrix (new_Translation v))"
  by (simp add: new_Translation_def getMatrix_def getInverseMatrix_def translation_inverses)

lemma set_translationVector_inverses:
  "inverses (getMatrix (set_translationVector v t)) (getInverseMatrix (set_translationVector v t))"
  by (simp add: set_translationVector_def Translation_recalculate_def getMatrix_def
      getInverseMatrix_def translation_inverses)

lemma new_Scaling_inverses:
  assumes "vec_x s \<noteq> 0" and "vec_y s \<noteq> 0" and "vec_z s \<noteq> 0"
  shows "inverses (getMatrix (new_Scaling s)) (getInverseMatrix (new_Scaling s))"
  using assms
  by (simp add: new_Scaling_def getMatrix_def getInverseMatrix_def inverses_def mul_def rowMul_def
      dot_def identity_def scaling_def col0_def col1_def col2_def col3_def)

section \<open>Facts about the traversal\<close>

lemmas kernel_defs = mul_def rowMul_def dot_def identity_def translation_def scaling_def vec_mul_def
      col0_def col1_def col2_def col3_def mulVec_def normalize_def vec_length_def

lemmas example_defs = exampleEnv_def exampleIntersect_def examplePhong_def exampleCamera_def
  onePixel_def trOf_def new_Translation_def getMatrix_def getInverseMatrix_def new_RayVisitor_def
  UNIT_SPHERE_def UNIT_AABOX_def UNIT_PYRAMID_def

lemmas visit_defs = visitNode_def visitCameraNode_def visitLightNode_def pushGroup_def popGroup_def
  top_def objectRay_def worldIntersection_def closerThan_def jsdiv_def resetPixel_def Let_def

lemmas render_defs = render_def renderPixel_def writePixel_def clearData_def putImageData_def
  setData_def toUint8Clamp_def

lemmas example_defs2 = example_defs probeEnv_def probePhong_def

lemmas example_state_defs = xRayVisitor_def underGroup_def xRay_def zRay_def redHit_def
  tieVisitor_def zRayVisitor_def


lemma frame_refl: "frame v v"
  by (simp add: frame_def)

lemma frame_trans: "frame a b \<Longrightarrow> frame b c \<Longrightarrow> frame a c"
  by (simp add: frame_def)

lemma visitNode_frame: "visitNode env n c u v = Inr v' \<Longrightarrow> frame v v'"
  by (auto simp: visitNode_def frame_def Let_def split: option.splits if_splits)

lemma visitCameraNode_frame: "visitCameraNode env v = Inr v' \<Longrightarrow> frame v v'"
  by (auto simp: visitCameraNode_def frame_def Let_def split: option.splits)

lemma visitLightNode_frame: "visitLightNode v = Inr v' \<Longrightarrow> frame v v'"
  by (auto simp: visitLightNode_def frame_def split: option.splits)

lemma push_pop_frame:
  "pushGroup tr v = Inr v1 \<Longrightarrow> frame v1 v2 \<Longrightarrow> frame v (popGroup v2)"
  by (auto simp: pushGroup_def popGroup_def frame_def split: option.splits)

lemma accept_frame:
  "accept env n v = Inr v' \<Longrightarrow> frame v v'"
  "acceptAll env ns v = Inr v' \<Longrightarrow> frame v v'"
proof (induction env n v and env ns v arbitrary: v' and v' rule: accept_acceptAll.induct)
  case (1 env tr children v)
  then show ?case
    by (auto split: sum.splits intro: push_pop_frame)
next
  case (13 env n ns v)
  then show ?case
    by (auto split: sum.splits intro: frame_trans)
qed (auto simp: frame_refl visitNode_frame visitCameraNode_frame visitLightNode_frame)

lemma acceptAll_append:
  "acceptAll env (ns @ ms) v =
     (case acceptAll env ns v of Inl e \<Rightarrow> Inl e | Inr v1 \<Rightarrow> acceptAll env ms v1)"
  by (induction ns arbitrary: v) (auto split: sum.splits)







lemma pushGroup_top:
  "pushGroup tr v = Inr v1 \<Longrightarrow> top (transformations v) = Some t \<Longrightarrow>
     top (transformations v1) = Some (mul t (getMatrix tr)) \<and> lightPositions v1 = lightPositions v"
  by (auto simp: pushGroup_def top_def split: option.splits)

lemma accept_lights:
  "accept env n v = Inr v' \<Longrightarrow> top (transformations v) = Some t \<Longrightarrow>
     lightPositions v' = lightPositions v @ lightsOf t n"
  "acceptAll env ns v = Inr v' \<Longrightarrow> top (transformations v) = Some t \<Longrightarrow>
     lightPositions v' = lightPositions v @ lightsOfAll t ns"
proof (induction env n v and env ns v arbitrary: v' t and v' t rule: accept_acceptAll.induct)
  case (1 env tr children v)
  from "1.prems"(1) obtain v1 v2 where p: "pushGroup tr v = Inr v1"
    and a: "acceptAll env children v1 = Inr v2" and v': "v' = popGroup v2"
    by (auto split: sum.splits)
  from pushGroup_top [OF p "1.prems"(2)] "1.IH" [OF p a] show ?case
    by (simp add: v' popGroup_def)
next
  case (13 env n ns v)
  from "13.prems"(1) obtain v1 where a: "accept env n v = Inr v1"
    and b: "acceptAll env ns v1 = Inr v'"
    by (auto split: sum.splits)
  have "top (transformations v1) = Some t"
    using accept_frame(1) [OF a] "13.prems"(2) by (simp add: frame_def)
  with "13.IH"(1) [OF a "13.prems"(2)] "13.IH"(2) [OF a b] show ?case
    by simp
qed (auto simp: visitNode_def visitCameraNode_def visitLightNode_def Let_def
      split: option.splits if_splits)









lemma pushGroup_camera:
  "pushGroup tr v = Inr v1 \<Longrightarrow> camera v1 = camera v"
  by (auto simp: pushGroup_def split: option.splits)

lemma accept_camera:
  "accept env n v = Inr v' \<Longrightarrow> top (transformations v) = Some t \<Longrightarrow>
     camera v' = (case lastCamera t n of None \<Rightarrow> camera v | Some m \<Rightarrow> Some (cameraAt m))"
  "acceptAll env ns v = Inr v' \<Longrightarrow> top (transformations v) = Some t \<Longrightarrow>
     camera v' = (case lastCameraAll t ns of None \<Rightarrow> camera v | Some m \<Rightarrow> Some (cameraAt m))"
proof (induction env n v and env ns v arbitrary: v' t and v' t rule: accept_acceptAll.induct)
  case (1 env tr children v)
  from "1.prems"(1) obtain v1 v2 where p: "pushGroup tr v = Inr v1"
    and a: "acceptAll env children v1 = Inr v2" and v': "v' = popGroup v2"
    by (auto split: sum.splits)
  from pushGroup_top [OF p "1.prems"(2)] have "top (transformations v1) = Some (mul t (getMatrix tr))"
    by simp
  from "1.IH" [OF p a this] show ?case
    by (simp add: v' popGroup_def pushGroup_camera [OF p] split: option.splits)
next
  case (13 env n ns v)
  from "13.prems"(1) obtain v1 where a: "accept env n v = Inr v1"
    and b: "acceptAll env ns v1 = Inr v'"
    by (auto split: sum.splits)
  have "top (transformations v1) = Some t"
    using accept_frame(1) [OF a] "13.prems"(2) by (simp add: frame_def)
  from "13.IH"(1) [OF a "13.prems"(2)] "13.IH"(2) [OF a b this] show ?case
    by (simp split: option.splits)
qed (auto simp: visitNode_def visitCameraNode_def visitLightNode_def cameraAt_def Let_def
      split: option.splits if_splits)

section \<open>Facts about render\<close>

lemma pixel_index_neq:
  assumes "x < w" and "x' < w" and "k < 4" and "k' < 4" and "x \<noteq> x' \<or> y \<noteq> y'"
  shows "4 * (w * y + x) + k \<noteq> 4 * (w * y' + x') + (k' :: nat)"
proof
  assume eq: "4 * (w * y + x) + k = 4 * (w * y' + x') + k'"
  define a where "a = w * y + x"
  define b where "b = w * y' + x'"
  have "4 * a + k = 4 * b + k'"
    using eq by (simp only: a_def b_def)
  then have "a = b"
    using assms(3,4) by arith
  then have e: "w * y + x = w * y' + x'"
    by (simp only: a_def b_def)
  have "(w * y + x) div w = y" "(w * y + x) mod w = x"
    "(w * y' + x') div w = y'" "(w * y' + x') mod w = x'"
    using assms(1,2) by simp_all
  then have "y = y'" "x = x'"
    using e by metis+
  with assms(5) show False by simp
qed

lemma pixel_index_bound:
  assumes "x < w" and "y < h"
  shows "4 * (w * y + x) + 3 < 4 * w * (h :: nat)"
proof -
  have "w * y + x < w * y + w"
    using assms(1) by simp
  also have "\<dots> = w * Suc y"
    by simp
  also have "\<dots> \<le> w * h"
    using assms(2) by (simp only: Suc_le_eq mult_le_mono2)
  finally have "w * y + x + 1 \<le> w * h"
    by simp
  then show ?thesis
    by simp
qed

lemma pixelAt_setData_other:
  assumes "x < w" and "x' < w" and "k < 4" and "x \<noteq> x' \<or> y \<noteq> y'"
  shows "pixelAt w (img_data (imageData (setData (4 * (w * y' + x') + k) b v))) x y
       = pixelAt w (img_data (imageData v)) x y"
proof -
  have "4 * (w * y + x) + j \<noteq> 4 * (w * y' + x') + k" if "j < 4" for j
    using pixel_index_neq [OF assms(1,2) that assms(3,4)] .
  from this [of 0] this [of 1] this [of 2] this [of 3] show ?thesis
    by (simp add: pixelAt_def setData_def)
qed

lemma sameImageSize_trans: "sameImageSize a b \<Longrightarrow> sameImageSize b c \<Longrightarrow> sameImageSize a c"
  by (simp add: sameImageSize_def)

lemma sameImageSize_refl: "sameImageSize a a"
  by (simp add: sameImageSize_def)

lemma writePixel_other:
  assumes "writePixel env pv w x' y' v = Inr v'" and "x < w" and "x' < w" and "x \<noteq> x' \<or> y \<noteq> y'"
  shows "pixelAt w (img_data (imageData v')) x y = pixelAt w (img_data (imageData v)) x y
         \<and> sameImageSize v v'"
proof -
  note o = pixelAt_setData_other [OF assms(2,3) _ assms(4)]
  have four: "pixelAt w (img_data (imageData
        (setData (4 * (w * y' + x') + 3) b3 (setData (4 * (w * y' + x') + 2) b2
        (setData (4 * (w * y' + x') + 1) b1 (setData (4 * (w * y' + x') + 0) b0 v)))))) x y
      = pixelAt w (img_data (imageData v)) x y" for b0 b1 b2 b3
    by (simp only: o [of 3] o [of 2] o [of 1] o [of 0])
  have size4: "sameImageSize v
        (setData (4 * (w * y' + x') + 3) b3 (setData (4 * (w * y' + x') + 2) b2
        (setData (4 * (w * y' + x') + 1) b1 (setData (4 * (w * y' + x') + 0) b0 v))))" for b0 b1 b2 b3
    by (simp add: sameImageSize_def setData_def)
  show ?thesis
  proof (cases "intersection v")
    case None
    then show ?thesis
      using assms(1) by (simp add: writePixel_def sameImageSize_refl)
  next
    case (Some i)
    show ?thesis
    proof (cases "intersectionColor v")
      case None
      then have "v' = setData (4 * (w * y' + x') + 3) 255 (setData (4 * (w * y' + x') + 2) 0
        (setData (4 * (w * y' + x') + 1) 0 (setData (4 * (w * y' + x') + 0) 0 v)))"
        using assms(1) Some by (simp add: writePixel_def)
      then show ?thesis
        using four size4 by simp
    next
      case c: (Some c)
      then obtain cam where "camera v = Some cam"
        using assms(1) Some by (cases "camera v") (simp_all add: writePixel_def)
      then have "v' = setData (4 * (w * y' + x') + 3) 255
        (setData (4 * (w * y' + x') + 2)
           (toUint8Clamp (vec_b (phong env c i (lightPositions v) pv (cam_origin cam)) * 255))
        (setData (4 * (w * y' + x') + 1)
           (toUint8Clamp (vec_g (phong env c i (lightPositions v) pv (cam_origin cam)) * 255))
        (setData (4 * (w * y' + x') + 0)
           (toUint8Clamp (vec_r (phong env c i (lightPositions v) pv (cam_origin cam)) * 255))
           v)))"
        using assms(1) Some c by (simp add: writePixel_def Let_def)
      then show ?thesis
        using four size4 by simp
    qed
  qed
qed

lemma resetPixel_image: "imageData (resetPixel x y v) = imageData v"
  by (simp add: resetPixel_def)

lemma renderPixel_other:
  assumes "renderPixel env rootNode pv w x' y' v = Inr v'" and "x < w" and "x' < w"
    and "x \<noteq> x' \<or> y \<noteq> y'"
  shows "pixelAt w (img_data (imageData v')) x y = pixelAt w (img_data (imageData v)) x y
         \<and> sameImageSize v v'"
proof -
  from assms(1) obtain v1 where a: "accept env rootNode (resetPixel x' y' v) = Inr v1"
    and b: "writePixel env pv w x' y' v1 = Inr v'"
    by (auto simp: renderPixel_def split: sum.splits)
  have "imageData v1 = imageData v"
    using accept_frame(1) [OF a] by (simp add: frame_def resetPixel_image)
  with writePixel_other [OF b assms(2,3,4)] show ?thesis
    by (simp add: sameImageSize_def)
qed

lemma loopY_other:
  assumes "loopY env rootNode pv w x' ys v = Inr v'" and "x < w" and "x' < w"
    and "x \<noteq> x' \<or> y \<notin> set ys"
  shows "pixelAt w (img_data (imageData v')) x y = pixelAt w (img_data (imageData v)) x y
         \<and> sameImageSize v v'"
  using assms
proof (induction ys arbitrary: v)
  case Nil
  then show ?case by (simp add: sameImageSize_refl)
next
  case (Cons y' ys)
  from Cons.prems(1) obtain v1 where a: "renderPixel env rootNode pv w x' y' v = Inr v1"
    and b: "loopY env rootNode pv w x' ys v1 = Inr v'"
    by (auto split: sum.splits)
  have ne: "x \<noteq> x' \<or> y \<noteq> y'" and ne': "x \<noteq> x' \<or> y \<notin> set ys"
    using Cons.prems(4) by auto
  from renderPixel_other [OF a Cons.prems(2,3) ne] Cons.IH [OF b Cons.prems(2,3) ne']
  show ?case
    by (auto intro: sameImageSize_trans)
qed

lemma loopX_other:
  assumes "loopX env rootNode pv w h xs v = Inr v'" and "x < w" and "\<forall>x' \<in> set xs. x' < w"
    and "x \<notin> set xs"
  shows "pixelAt w (img_data (imageData v')) x y = pixelAt w (img_data (imageData v)) x y
         \<and> sameImageSize v v'"
  using assms
proof (induction xs arbitrary: v)
  case Nil
  then show ?case by (simp add: sameImageSize_refl)
next
  case (Cons x' xs)
  from Cons.prems(1) obtain v1 where a: "loopY env rootNode pv w x' [0..<h] v = Inr v1"
    and b: "loopX env rootNode pv w h xs v1 = Inr v'"
    by (auto split: sum.splits)
  have lt: "x' < w" and rest: "\<forall>x' \<in> set xs. x' < w" and ne: "x \<noteq> x' \<or> y \<notin> set [0..<h]"
    and ne': "x \<notin> set xs"
    using Cons.prems(3,4) by auto
  from loopY_other [OF a Cons.prems(2) lt ne] Cons.IH [OF b Cons.prems(2) rest ne']
  show ?case
    by (auto intro: sameImageSize_trans)
qed

lemma loopY_append:
  "loopY env rootNode pv w x (ys @ zs) v =
     (case loopY env rootNode pv w x ys v of Inl e \<Rightarrow> Inl e
      | Inr v1 \<Rightarrow> loopY env rootNode pv w x zs v1)"
  by (induction ys arbitrary: v) (auto split: sum.splits)

lemma loopX_append:
  "loopX env rootNode pv w h (xs @ zs) v =
     (case loopX env rootNode pv w h xs v of Inl e \<Rightarrow> Inl e
      | Inr v1 \<Rightarrow> loopX env rootNode pv w h zs v1)"
  by (induction xs arbitrary: v) (auto split: sum.splits)

lemma upt_split:
  assumes "i < n"
  shows "[0..<n] = [0..<i] @ i # [Suc i..<n]"
proof -
  have "[0..<i + (n - i)] = [0..<i] @ [i..<i + (n - i)]"
    by (rule upt_add_eq_append) simp
  moreover have "i + (n - i) = n"
    using assms by simp
  ultimately have "[0..<n] = [0..<i] @ [i..<n]"
    by simp
  then show ?thesis
    using assms by (simp add: upt_conv_Cons)
qed

lemma render_pixel:
  assumes "render env rootNode cameraArg lightPositionsArg phongValues v = Inr v'"
    and "length (img_data (imageData v)) = 4 * img_width (imageData v) * img_height (imageData v)"
    and "x < img_width (imageData v)" and "y < img_height (imageData v)"
  shows "\<exists>s sw.
      traversalAt env rootNode phongValues (img_width (imageData v)) (img_height (imageData v))
        x y (clearData v) = Inr s \<and>
      writePixel env phongValues (img_width (imageData v)) x y s = Inr sw \<and>
      pixelAt (img_width (imageData v)) (img_data (imageData s)) x y = (0, 0, 0, 0) \<and>
      length (img_data (imageData s)) = 4 * img_width (imageData v) * img_height (imageData v) \<and>
      pixelAt (img_width (imageData v)) (canvas v') x y
        = pixelAt (img_width (imageData v)) (img_data (imageData sw)) x y \<and>
      length (canvas v') = 4 * img_width (imageData v) * img_height (imageData v)"
proof -
  define w where "w = img_width (imageData v)"
  define h where "h = img_height (imageData v)"
  define v0 where "v0 = clearData v"
  have xw: "x < w" and yh: "y < h"
    using assms(3,4) by (simp_all add: w_def h_def)
  have len0: "length (img_data (imageData v0)) = 4 * w * h"
    using assms(2) by (simp add: v0_def clearData_def w_def h_def)
  have idx: "4 * (w * y + x) + 3 < 4 * w * h"
    using xw yh by (rule pixel_index_bound)
  have zero0: "pixelAt w (img_data (imageData v0)) x y = (0, 0, 0, 0)"
    using idx assms(2) by (simp add: pixelAt_def v0_def clearData_def w_def h_def)
  from assms(1) obtain vEnd where run: "loopX env rootNode phongValues w h [0..<w] v0 = Inr vEnd"
    and v': "v' = putImageData vEnd"
    by (auto simp: render_def Let_def v0_def w_def h_def clearData_def split: sum.splits)
  have "loopX env rootNode phongValues w h ([0..<x] @ x # [Suc x..<w]) v0 = Inr vEnd"
    using run upt_split [OF xw] by simp
  then obtain va vb where cols: "loopX env rootNode phongValues w h [0..<x] v0 = Inr va"
    and col: "loopY env rootNode phongValues w x [0..<h] va = Inr vb"
    and rest: "loopX env rootNode phongValues w h [Suc x..<w] vb = Inr vEnd"
    by (auto simp: loopX_append split: sum.splits)
  have "loopY env rootNode phongValues w x ([0..<y] @ y # [Suc y..<h]) va = Inr vb"
    using col upt_split [OF yh] by simp
  then obtain vc vd where rows: "loopY env rootNode phongValues w x [0..<y] va = Inr vc"
    and px: "renderPixel env rootNode phongValues w x y vc = Inr vd"
    and rows': "loopY env rootNode phongValues w x [Suc y..<h] vd = Inr vb"
    by (auto simp: loopY_append split: sum.splits)
  from px obtain s where trav: "accept env rootNode (resetPixel x y vc) = Inr s"
    and wr: "writePixel env phongValues w x y s = Inr vd"
    by (auto simp: renderPixel_def split: sum.splits)
  have before: "stateBefore env rootNode phongValues w h x y v0 = Inr vc"
    by (simp add: stateBefore_def cols rows)
  have at: "traversalAt env rootNode phongValues w h x y v0 = Inr s"
    by (simp add: traversalAt_def before trav)
  have a: "pixelAt w (img_data (imageData va)) x y = pixelAt w (img_data (imageData v0)) x y
      \<and> sameImageSize v0 va"
    using cols xw by (rule loopX_other) (use xw in auto)
  have c: "pixelAt w (img_data (imageData vc)) x y = pixelAt w (img_data (imageData va)) x y
      \<and> sameImageSize va vc"
    using rows xw xw by (rule loopY_other) simp
  have s_img: "imageData s = imageData vc"
    using accept_frame(1) [OF trav] by (simp add: frame_def resetPixel_image)
  have d: "sameImageSize s vd"
  proof -
    have "sameImageSize s (setData i3 b3 (setData i2 b2 (setData i1 b1 (setData i0 b0 s))))"
      for i0 i1 i2 i3 b0 b1 b2 b3
      by (simp add: sameImageSize_def setData_def)
    then show ?thesis
      using wr by (auto simp: writePixel_def Let_def sameImageSize_refl split: option.splits)
  qed
  have b: "pixelAt w (img_data (imageData vb)) x y = pixelAt w (img_data (imageData vd)) x y
      \<and> sameImageSize vd vb"
    using rows' xw xw by (rule loopY_other) simp
  have e: "pixelAt w (img_data (imageData vEnd)) x y = pixelAt w (img_data (imageData vb)) x y
      \<and> sameImageSize vb vEnd"
    using rest xw by (rule loopX_other) auto
  have "pixelAt w (img_data (imageData s)) x y = (0, 0, 0, 0)"
    using a c zero0 s_img by simp
  moreover have "length (img_data (imageData s)) = 4 * w * h"
    using a c len0 s_img by (simp add: sameImageSize_def)
  moreover have "pixelAt w (canvas v') x y = pixelAt w (img_data (imageData vd)) x y"
    using b e by (simp add: v' putImageData_def)
  moreover have "length (canvas v') = 4 * w * h"
    using a c d b e len0 s_img by (simp add: v' putImageData_def sameImageSize_def)
  ultimately show ?thesis
    using at wr unfolding w_def h_def v0_def by blast
qed

lemma pixelAt_written:
  assumes "4 * (w * y + x) + 3 < length (img_data (imageData s))"
  shows "pixelAt w (img_data (imageData
        (setData (4 * (w * y + x) + 3) b3 (setData (4 * (w * y + x) + 2) b2
        (setData (4 * (w * y + x) + 1) b1 (setData (4 * (w * y + x) + 0) b0 s)))))) x y
      = (b0, b1, b2, b3)"
  using assms by (simp add: pixelAt_def setData_def)

lemma onePixel_image:
  "length (img_data (imageData onePixel))
     = 4 * img_width (imageData onePixel) * img_height (imageData onePixel)"
  "0 < img_width (imageData onePixel)" "0 < img_height (imageData onePixel)"
  "img_width (imageData onePixel) = 1" "img_height (imageData onePixel) = 1"
  by (simp_all add: onePixel_def new_RayVisitor_def)

lemma traversalAt_first:
  "traversalAt env rootNode pv w h 0 0 v = accept env rootNode (resetPixel 0 0 v)"
  by (simp add: traversalAt_def stateBefore_def)








lemma traversalAt_gathers:
  assumes "traversalAt env rootNode pv w h x y v0 = Inr s"
  shows "lightPositions s = lightsOf identity rootNode"
    and "camera s = (case lastCamera identity rootNode of
                       None \<Rightarrow> camera s | Some m \<Rightarrow> Some (cameraAt m))"
proof -
  from assms obtain vc where a: "accept env rootNode (resetPixel x y vc) = Inr s"
    by (auto simp: traversalAt_def split: sum.splits)
  have t: "top (transformations (resetPixel x y vc)) = Some identity"
    by (simp add: resetPixel_def top_def)
  from accept_lights(1) [OF a t] show "lightPositions s = lightsOf identity rootNode"
    by (simp add: resetPixel_def)
  from accept_camera(1) [OF a t] show "camera s = (case lastCamera identity rootNode of
                       None \<Rightarrow> camera s | Some m \<Rightarrow> Some (cameraAt m))"
    by (simp split: option.splits)
qed

lemma render_pixel_shaded:
  assumes "render env rootNode cameraArg lightPositionsArg phongValues v = Inr v'"
    and "length (img_data (imageData v)) = 4 * img_width (imageData v) * img_height (imageData v)"
    and "x < img_width (imageData v)" and "y < img_height (imageData v)"
    and "traversalAt env rootNode phongValues (img_width (imageData v)) (img_height (imageData v))
            x y (clearData v) = Inr s"
    and "intersection s = Some i" and "intersectionColor s = Some c" and "camera s = Some cam"
  shows "pixelAt (img_width (imageData v)) (canvas v') x y =
      (toUint8Clamp (vec_r (phong env c i (lightsOf identity rootNode) phongValues (cam_origin cam)) * 255),
       toUint8Clamp (vec_g (phong env c i (lightsOf identity rootNode) phongValues (cam_origin cam)) * 255),
       toUint8Clamp (vec_b (phong env c i (lightsOf identity rootNode) phongValues (cam_origin cam)) * 255),
       255)"
proof -
  let ?w = "img_width (imageData v)"
  let ?h = "img_height (imageData v)"
  let ?p = "4 * (?w * y + x)"
  let ?col = "phong env c i (lightPositions s) phongValues (cam_origin cam)"
  from render_pixel [OF assms(1-4)] obtain s1 sw where
    at: "traversalAt env rootNode phongValues ?w ?h x y (clearData v) = Inr s1"
    and wr: "writePixel env phongValues ?w x y s1 = Inr sw"
    and len: "length (img_data (imageData s1)) = 4 * ?w * ?h"
    and px: "pixelAt ?w (canvas v') x y = pixelAt ?w (img_data (imageData sw)) x y"
    by blast
  have s1: "s1 = s"
    using at assms(5) by simp
  have idx: "?p + 3 < length (img_data (imageData s))"
    using pixel_index_bound [OF assms(3,4)] len s1 by simp
  have "sw = setData (?p + 3) 255
          (setData (?p + 2) (toUint8Clamp (vec_b ?col * 255))
          (setData (?p + 1) (toUint8Clamp (vec_g ?col * 255))
          (setData (?p + 0) (toUint8Clamp (vec_r ?col * 255)) s)))"
    using wr s1 assms(6,7,8) by (simp add: writePixel_def Let_def)
  then have "pixelAt ?w (img_data (imageData sw)) x y =
      (toUint8Clamp (vec_r ?col * 255), toUint8Clamp (vec_g ?col * 255),
       toUint8Clamp (vec_b ?col * 255), 255)"
    using pixelAt_written [OF idx] by simp
  then show ?thesis
    using px traversalAt_gathers(1) [OF assms(5)] by simp
qed

section \<open>Properties of the transform stacks\<close>

text \<open>
  C7. Stack discipline. The per-pixel traversal starts with both stacks equal to
  \<open>[identity]\<close>, and when the visit of the tree returns both stacks have depth 1
  again; every visit that returns leaves both depths as it found them. The trees of
  the datatype are the acyclic scene graphs.
\<close>

theorem stack_discipline:
  assumes "accept env rootNode (resetPixel x y v) = Inr v'"
  shows "transformations (resetPixel x y v) = [identity] \<and>
         inverseTransformations (resetPixel x y v) = [identity] \<and>
         length (transformations v') = 1 \<and> length (inverseTransformations v') = 1 \<and>
         (\<forall>n s s'. accept env n s = Inr s' \<longrightarrow>
            length (transformations s') = length (transformations s) \<and>
            length (inverseTransformations s') = length (inverseTransformations s))"
proof -
  have "frame (resetPixel x y v) v'"
    using assms by (rule accept_frame)
  moreover have "transformations (resetPixel x y v) = [identity]"
    "inverseTransformations (resetPixel x y v) = [identity]"
    by (simp_all add: resetPixel_def)
  moreover have "\<forall>n s s'. accept env n s = Inr s' \<longrightarrow>
            length (transformations s') = length (transformations s) \<and>
            length (inverseTransformations s') = length (inverseTransformations s)"
  proof (intro allI impI)
    fix n s s'
    assume "accept env n s = Inr s'"
    then have "frame s s'"
      by (rule accept_frame(1))
    then show "length (transformations s') = length (transformations s) \<and>
        length (inverseTransformations s') = length (inverseTransformations s)"
      by (simp add: frame_def)
  qed
  ultimately show ?thesis
    by (simp add: frame_def)
qed

theorem stack_discipline_witness:
  "accept exampleEnv sphereScene (resetPixel 0 0 onePixel) \<noteq> Inl TypeError \<and>
   stackDepths (accept exampleEnv sphereScene (resetPixel 0 0 onePixel)) = Some (1, 1)"
proof -
  obtain v' where r: "accept exampleEnv sphereScene (resetPixel 0 0 onePixel) = Inr v'"
    by (simp add: sphereScene_def example_defs visit_defs kernel_defs)
  from stack_discipline [OF r] show ?thesis
    by (simp add: r stackDepths_def)
qed

text \<open>
  C6. Visiting a group node pushes \<open>top(matrixStack) \<cdot> matrix\<close> and
  \<open>inverseMatrix \<cdot> top(inverseStack)\<close>, visits the children in list order, one after
  the other, and pops both stacks when the children have returned, so that both stacks
  are as before. If the tops were true inverses of each other and so are the matrices
  of the node's transform, the pushed pair are true inverses of each other.
\<close>

theorem visitGroupNode_stacks:
  assumes "top (transformations v) = Some t" and "top (inverseTransformations v) = Some ti"
  shows "\<exists>v1. pushGroup tr v = Inr v1 \<and>
           transformations v1 = transformations v @ [mul t (getMatrix tr)] \<and>
           inverseTransformations v1 = inverseTransformations v @ [mul (getInverseMatrix tr) ti] \<and>
           visitGroupNode env tr children v =
             (case acceptAll env children v1 of Inl e \<Rightarrow> Inl e | Inr v2 \<Rightarrow> Inr (popGroup v2)) \<and>
           (\<forall>c cs s. acceptAll env (c # cs) s =
              (case accept env c s of Inl e \<Rightarrow> Inl e | Inr s1 \<Rightarrow> acceptAll env cs s1)) \<and>
           (\<forall>v'. visitGroupNode env tr children v = Inr v' \<longrightarrow>
              transformations v' = transformations v \<and>
              inverseTransformations v' = inverseTransformations v) \<and>
           (inverses t ti \<and> inverses (getMatrix tr) (getInverseMatrix tr) \<longrightarrow>
              inverses (mul t (getMatrix tr)) (mul (getInverseMatrix tr) ti))"
proof -
  let ?v1 = "v \<lparr> transformations := transformations v @ [mul t (getMatrix tr)],
                 inverseTransformations :=
                   inverseTransformations v @ [mul (getInverseMatrix tr) ti] \<rparr>"
  have push: "pushGroup tr v = Inr ?v1"
    using assms by (simp add: pushGroup_def)
  have visit: "visitGroupNode env tr children v =
      (case acceptAll env children ?v1 of Inl e \<Rightarrow> Inl e | Inr v2 \<Rightarrow> Inr (popGroup v2))"
    by (simp add: visitGroupNode_def push)
  have order: "\<forall>c cs s. acceptAll env (c # cs) s =
      (case accept env c s of Inl e \<Rightarrow> Inl e | Inr s1 \<Rightarrow> acceptAll env cs s1)"
    by simp
  have restored: "\<forall>v'. visitGroupNode env tr children v = Inr v' \<longrightarrow>
              transformations v' = transformations v \<and>
              inverseTransformations v' = inverseTransformations v"
  proof (intro allI impI)
    fix v'
    assume "visitGroupNode env tr children v = Inr v'"
    then have "accept env (GroupNode tr children) v = Inr v'"
      by (simp only: visitGroupNode_def)
    then have "frame v v'"
      by (rule accept_frame(1))
    then show "transformations v' = transformations v \<and>
        inverseTransformations v' = inverseTransformations v"
      by (simp add: frame_def)
  qed
  have inv: "inverses t ti \<and> inverses (getMatrix tr) (getInverseMatrix tr) \<longrightarrow>
      inverses (mul t (getMatrix tr)) (mul (getInverseMatrix tr) ti)"
    by (simp add: inverses_compose)
  have stacks: "transformations ?v1 = transformations v @ [mul t (getMatrix tr)]"
    "inverseTransformations ?v1 = inverseTransformations v @ [mul (getInverseMatrix tr) ti]"
    by simp_all
  from push stacks visit order restored inv show ?thesis
    by blast
qed

theorem visitGroupNode_stacks_witness:
  "top (transformations (resetPixel 0 0 onePixel)) = Some identity \<and>
   top (inverseTransformations (resetPixel 0 0 onePixel)) = Some identity \<and>
   inverses identity identity \<and>
   inverses (getMatrix (trOf (new_Translation (Vector 1 2 3 0))))
            (getInverseMatrix (trOf (new_Translation (Vector 1 2 3 0)))) \<and>
   inverses (mul identity (getMatrix (trOf (new_Translation (Vector 1 2 3 0)))))
            (mul (getInverseMatrix (trOf (new_Translation (Vector 1 2 3 0)))) identity) \<and>
   stackDepths (visitGroupNode exampleEnv (trOf (new_Translation (Vector 1 2 3 0)))
                  [LightNode, CameraNode] (resetPixel 0 0 onePixel)) = Some (1, 1)"
proof -
  let ?tr = "trOf (new_Translation (Vector 1 2 3 0))"
  let ?v = "resetPixel 0 0 onePixel"
  have t: "top (transformations ?v) = Some identity"
    and ti: "top (inverseTransformations ?v) = Some identity"
    by (simp_all add: resetPixel_def top_def)
  have i1: "inverses identity identity"
    by (rule inverses_identity)
  have i2: "inverses (getMatrix ?tr) (getInverseMatrix ?tr)"
    using new_Translation_inverses [of "Vector 1 2 3 0"]
    by (simp add: trOf_def getMatrix_def getInverseMatrix_def)
  obtain v' where run: "visitGroupNode exampleEnv ?tr [LightNode, CameraNode] ?v = Inr v'"
    by (simp add: visitGroupNode_def example_defs visit_defs kernel_defs)
  from visitGroupNode_stacks [OF t ti, of ?tr exampleEnv "[LightNode, CameraNode]"] i1 i2 run
  have "inverses (mul identity (getMatrix ?tr)) (mul (getInverseMatrix ?tr) identity)"
    and "transformations v' = transformations ?v"
    and "inverseTransformations v' = inverseTransformations ?v"
    by blast+
  then show ?thesis
    using t ti i1 i2 run by (simp add: stackDepths_def resetPixel_def)
qed

section \<open>Properties of the shape-node visit\<close>



text \<open>
  C2. The stored parameter is meant to be the world-space offset over the world-space
  direction. The source subtracts the origin of the local \<open>ray\<close>, which is the
  object-space ray, from the world-space hit point and divides by the direction of that
  same object-space ray. For a unit sphere three units along x and the world ray along
  x from the origin, the world hit point is \<open>(2, 0, 0)\<close>, the specification's
  parameter is 2 and the stored one is 5.
\<close>

theorem stored_t_mixes_spaces:
  "ray xRayVisitor = Some xRay \<and>
   storedPoint (accept exampleEnv movedSphere xRayVisitor) = Some (Vector 2 0 0 1) \<and>
   spec_worldT xRay (Vector 2 0 0 1) = Fin 2 \<and>
   storedT (accept exampleEnv movedSphere xRayVisitor) = Some (Fin 5)"
  by (simp add: storedT_def storedPoint_def spec_worldT_def movedSphere_def example_state_defs
      example_defs visit_defs kernel_defs)

text \<open>
  C3. The division that yields the stored parameter has no guard. In the scene of the
  spec's end-to-end example, with the ray through the centre, the x component of the
  direction is zero and so is the x offset: the stored parameter is NaN.
\<close>

theorem nan_is_stored:
  "storedT (accept exampleEnv sphereScene (resetPixel 0 0 onePixel)) = Some NaN"
  by (simp add: storedT_def sphereScene_def example_defs visit_defs kernel_defs)

text \<open>
  C3, as the code has it: a hit that is recorded stores the quotient of the x offset
  by the x component of the direction of the ray handed to the unit object, without a
  guard and without an error; the stored parameter is finite exactly when that
  component is not zero.
\<close>

theorem division_is_unguarded:
  assumes "top (inverseTransformations v) = Some fromWorld"
    and "ray v = Some this_ray"
    and "top (transformations v) = Some toWorld"
    and "intersect env unitObject (objectRay fromWorld this_ray) = Some hit"
    and "intersection v = None"
  shows "storedT (visitNode env node color unitObject v) =
           Some (jsdiv (vec_x (mulVec toWorld (isect_point hit))
                          - vec_x (ray_origin (objectRay fromWorld this_ray)))
                       (vec_x (ray_direction (objectRay fromWorld this_ray)))) \<and>
         (isFinite (jsdiv (vec_x (mulVec toWorld (isect_point hit))
                          - vec_x (ray_origin (objectRay fromWorld this_ray)))
                       (vec_x (ray_direction (objectRay fromWorld this_ray))))
            \<longleftrightarrow> vec_x (ray_direction (objectRay fromWorld this_ray)) \<noteq> 0)"
  using assms
  by (simp add: visitNode_def Let_def storedT_def worldIntersection_def jsdiv_def)

theorem division_is_unguarded_witness:
  "top (inverseTransformations zRayVisitor) = Some (translation (Vector 0 0 5 0)) \<and>
   ray zRayVisitor = Some zRay \<and>
   top (transformations zRayVisitor) = Some (translation (Vector 0 0 (- 5) 0)) \<and>
   intersect exampleEnv UNIT_SPHERE (objectRay (translation (Vector 0 0 5 0)) zRay)
     = Some \<lparr> isect_t = Fin 4, isect_point = Vector 0 0 1 1, isect_normal = Vector 0 0 1 0 \<rparr> \<and>
   intersection zRayVisitor = None \<and>
   vec_x (ray_direction (objectRay (translation (Vector 0 0 5 0)) zRay)) = 0 \<and>
   storedT (visitNode exampleEnv (SphereNode None) None UNIT_SPHERE zRayVisitor) = Some NaN \<and>
   \<not> isFinite NaN"
proof -
  let ?hit = "\<lparr> isect_t = Fin 4, isect_point = Vector 0 0 1 1, isect_normal = Vector 0 0 1 0 \<rparr>"
  have h1: "top (inverseTransformations zRayVisitor) = Some (translation (Vector 0 0 5 0))"
    by (simp add: example_state_defs resetPixel_def top_def vec_mul_def)
  have h2: "ray zRayVisitor = Some zRay"
    by (simp add: example_state_defs)
  have h3: "top (transformations zRayVisitor) = Some (translation (Vector 0 0 (- 5) 0))"
    by (simp add: example_state_defs resetPixel_def top_def)
  have h4: "intersect exampleEnv UNIT_SPHERE (objectRay (translation (Vector 0 0 5 0)) zRay)
      = Some ?hit"
    by (simp add: example_state_defs example_defs objectRay_def kernel_defs)
  have h5: "intersection zRayVisitor = None"
    by (simp add: example_state_defs resetPixel_def)
  have d: "vec_x (ray_direction (objectRay (translation (Vector 0 0 5 0)) zRay)) = 0"
    by (simp add: example_state_defs objectRay_def kernel_defs)
  have n: "jsdiv (vec_x (mulVec (translation (Vector 0 0 (- 5) 0)) (isect_point ?hit))
                   - vec_x (ray_origin (objectRay (translation (Vector 0 0 5 0)) zRay)))
                 (vec_x (ray_direction (objectRay (translation (Vector 0 0 5 0)) zRay))) = NaN"
    by (simp add: example_state_defs objectRay_def jsdiv_def kernel_defs)
  from division_is_unguarded [OF h1 h2 h3 h4 h5, of "SphereNode None" None]
  have "storedT (visitNode exampleEnv (SphereNode None) None UNIT_SPHERE zRayVisitor) = Some NaN"
    and "\<not> isFinite NaN"
    unfolding n using d by simp_all
  then show ?thesis
    using h1 h2 h3 h4 h5 d by simp
qed

section \<open>Properties of the transform model\<close>

text \<open>
  C1. The matrix and the inverse of a transformation multiply to the identity, also
  after a setter has recomputed them. The constructor of \<open>Scaling\<close> stores the
  scaling by the reciprocals; \<open>recalculate\<close>, which the setter \<open>scale\<close> runs,
  stores the scaling by the negated vector instead. After \<open>scale = (2, 2, 2)\<close> the
  product of matrix and inverse is the scaling by -4, at distance 5 from the identity,
  whereas a \<open>Scaling\<close> constructed with the same vector holds true inverses.
\<close>

theorem scale_setter_breaks_inverse:
  "mul (getMatrix (set_scale (Vector 2 2 2 0) (new_Scaling (Vector 1 1 1 0))))
       (getInverseMatrix (set_scale (Vector 2 2 2 0) (new_Scaling (Vector 1 1 1 0))))
     = scaling (Vector (- 4) (- 4) (- 4) 0) \<and>
   diagError (mul (getMatrix (set_scale (Vector 2 2 2 0) (new_Scaling (Vector 1 1 1 0))))
       (getInverseMatrix (set_scale (Vector 2 2 2 0) (new_Scaling (Vector 1 1 1 0))))) = 5 \<and>
   inverses (getMatrix (new_Scaling (Vector 2 2 2 0))) (getInverseMatrix (new_Scaling (Vector 2 2 2 0)))"
  by (simp add: set_scale_def Scaling_recalculate_def new_Scaling_def getMatrix_def
      getInverseMatrix_def diagError_def inverses_def kernel_defs)

section \<open>Properties of render\<close>




text \<open>
  C5. Every pixel of the raster is to be fully opaque. \<open>render\<close> clears the buffer
  to zero and writes only the pixels that have an intersection: a scene without shapes
  leaves its pixel at \<open>(0, 0, 0, 0)\<close>, alpha 0.
\<close>

theorem background_alpha_is_zero:
  "shownCanvas (render exampleEnv emptyScene exampleCamera [] examplePhong onePixel)
     = Some [0, 0, 0, 0]"
  by (simp add: shownCanvas_def emptyScene_def render_defs example_defs visit_defs kernel_defs)

text \<open>
  C5, as the code has it: after \<open>render\<close> the raster has \<open>4 \<cdot> width \<cdot> height\<close>
  bytes; a pixel whose traversal ended with an intersection has alpha 255, and a pixel
  whose traversal ended without one keeps the cleared background, zero in all four
  channels.
\<close>

theorem alpha_opaque_exactly_on_hits:
  assumes "render env rootNode cameraArg lightPositionsArg phongValues v = Inr v'"
    and "length (img_data (imageData v)) = 4 * img_width (imageData v) * img_height (imageData v)"
    and "x < img_width (imageData v)" and "y < img_height (imageData v)"
  shows "length (canvas v') = 4 * img_width (imageData v) * img_height (imageData v) \<and>
     (\<exists>s. traversalAt env rootNode phongValues (img_width (imageData v)) (img_height (imageData v))
            x y (clearData v) = Inr s \<and>
          (intersection s \<noteq> None \<longrightarrow> alphaAt (img_width (imageData v)) (canvas v') x y = 255) \<and>
          (intersection s = None \<longrightarrow>
             pixelAt (img_width (imageData v)) (canvas v') x y = (0, 0, 0, 0)))"
proof -
  let ?w = "img_width (imageData v)"
  let ?h = "img_height (imageData v)"
  let ?p = "4 * (?w * y + x)"
  from render_pixel [OF assms] obtain s sw where
    at: "traversalAt env rootNode phongValues ?w ?h x y (clearData v) = Inr s"
    and wr: "writePixel env phongValues ?w x y s = Inr sw"
    and zero: "pixelAt ?w (img_data (imageData s)) x y = (0, 0, 0, 0)"
    and len: "length (img_data (imageData s)) = 4 * ?w * ?h"
    and px: "pixelAt ?w (canvas v') x y = pixelAt ?w (img_data (imageData sw)) x y"
    and lenc: "length (canvas v') = 4 * ?w * ?h"
    by blast
  have idx: "?p + 3 < length (img_data (imageData s))"
    using pixel_index_bound [OF assms(3,4)] len by simp
  have alpha: "alphaAt ?w d x y = snd (snd (snd (pixelAt ?w d x y)))" for d
    by (simp add: alphaAt_def pixelAt_def)
  have miss: "intersection s = None \<longrightarrow> pixelAt ?w (canvas v') x y = (0, 0, 0, 0)"
  proof
    assume "intersection s = None"
    then have "sw = s"
      using wr by (simp add: writePixel_def)
    then show "pixelAt ?w (canvas v') x y = (0, 0, 0, 0)"
      using px zero by simp
  qed
  have hit: "intersection s \<noteq> None \<longrightarrow> alphaAt ?w (canvas v') x y = 255"
  proof
    assume "intersection s \<noteq> None"
    then obtain i where i: "intersection s = Some i"
      by blast
    have "\<exists>b0 b1 b2. sw = setData (?p + 3) 255
        (setData (?p + 2) b2 (setData (?p + 1) b1 (setData (?p + 0) b0 s)))"
    proof (cases "intersectionColor s")
      case None
      then have "sw = setData (?p + 3) 255
          (setData (?p + 2) 0 (setData (?p + 1) 0 (setData (?p + 0) 0 s)))"
        using wr i by (simp add: writePixel_def)
      then show ?thesis by blast
    next
      case (Some c)
      then obtain cam where cam: "camera s = Some cam"
        using wr i by (cases "camera s") (simp_all add: writePixel_def)
      let ?col = "phong env c i (lightPositions s) phongValues (cam_origin cam)"
      have "sw = setData (?p + 3) 255
          (setData (?p + 2) (toUint8Clamp (vec_b ?col * 255))
          (setData (?p + 1) (toUint8Clamp (vec_g ?col * 255))
          (setData (?p + 0) (toUint8Clamp (vec_r ?col * 255)) s)))"
        using wr i Some cam by (simp add: writePixel_def Let_def)
      then show ?thesis by blast
    qed
    then obtain b0 b1 b2 where "sw = setData (?p + 3) 255
        (setData (?p + 2) b2 (setData (?p + 1) b1 (setData (?p + 0) b0 s)))"
      by blast
    then have "pixelAt ?w (img_data (imageData sw)) x y = (b0, b1, b2, 255)"
      using pixelAt_written [OF idx] by simp
    then show "alphaAt ?w (canvas v') x y = 255"
      by (simp add: alpha px)
  qed
  from at hit miss have "\<exists>s. traversalAt env rootNode phongValues ?w ?h x y (clearData v) = Inr s \<and>
          (intersection s \<noteq> None \<longrightarrow> alphaAt ?w (canvas v') x y = 255) \<and>
          (intersection s = None \<longrightarrow> pixelAt ?w (canvas v') x y = (0, 0, 0, 0))"
    by (intro exI [of _ s] conjI)
  with lenc show ?thesis
    by (rule conjI)
qed

theorem alpha_opaque_exactly_on_hits_witness:
  "length (img_data (imageData onePixel))
     = 4 * img_width (imageData onePixel) * img_height (imageData onePixel) \<and>
   0 < img_width (imageData onePixel) \<and> 0 < img_height (imageData onePixel) \<and>
   render exampleEnv sphereScene exampleCamera [] examplePhong onePixel \<noteq> Inl TypeError \<and>
   render exampleEnv emptyScene exampleCamera [] examplePhong onePixel \<noteq> Inl TypeError \<and>
   storedT (traversalAt exampleEnv sphereScene examplePhong 1 1 0 0 (clearData onePixel)) \<noteq> None \<and>
   storedT (traversalAt exampleEnv emptyScene examplePhong 1 1 0 0 (clearData onePixel)) = None \<and>
   alphaAt 1 (the (shownCanvas
      (render exampleEnv sphereScene exampleCamera [] examplePhong onePixel))) 0 0 = 255 \<and>
   pixelAt 1 (the (shownCanvas
      (render exampleEnv emptyScene exampleCamera [] examplePhong onePixel))) 0 0 = (0, 0, 0, 0)"
proof -
  obtain v1 where r1: "render exampleEnv sphereScene exampleCamera [] examplePhong onePixel = Inr v1"
    by (simp add: sphereScene_def render_defs example_defs visit_defs kernel_defs)
  obtain v2 where r2: "render exampleEnv emptyScene exampleCamera [] examplePhong onePixel = Inr v2"
    by (simp add: emptyScene_def render_defs example_defs visit_defs kernel_defs)
  obtain s1 where t1: "traversalAt exampleEnv sphereScene examplePhong 1 1 0 0 (clearData onePixel) = Inr s1"
    and i1: "intersection s1 \<noteq> None"
    by (simp add: traversalAt_first sphereScene_def clearData_def example_defs visit_defs kernel_defs)
  obtain s2 where t2: "traversalAt exampleEnv emptyScene examplePhong 1 1 0 0 (clearData onePixel) = Inr s2"
    and i2: "intersection s2 = None"
    by (simp add: traversalAt_first emptyScene_def clearData_def example_defs visit_defs kernel_defs)
  from alpha_opaque_exactly_on_hits [OF r1 onePixel_image(1,2,3)] t1 i1
  have a: "alphaAt 1 (canvas v1) 0 0 = 255"
    by (auto simp: onePixel_image(4,5))
  from alpha_opaque_exactly_on_hits [OF r2 onePixel_image(1,2,3)] t2 i2
  have b: "pixelAt 1 (canvas v2) 0 0 = (0, 0, 0, 0)"
    by (auto simp: onePixel_image(4,5))
  have c1: "render exampleEnv sphereScene exampleCamera [] examplePhong onePixel \<noteq> Inl TypeError"
    and c2: "render exampleEnv emptyScene exampleCamera [] examplePhong onePixel \<noteq> Inl TypeError"
    unfolding r1 r2 by simp_all
  have c3: "storedT (traversalAt exampleEnv sphereScene examplePhong 1 1 0 0 (clearData onePixel))
      \<noteq> None"
    unfolding t1 storedT_def using i1 by simp
  have c4: "storedT (traversalAt exampleEnv emptyScene examplePhong 1 1 0 0 (clearData onePixel))
      = None"
    unfolding t2 storedT_def using i2 by simp
  have c5: "alphaAt 1 (the (shownCanvas
      (render exampleEnv sphereScene exampleCamera [] examplePhong onePixel))) 0 0 = 255"
    unfolding r1 shownCanvas_def using a by simp
  have c6: "pixelAt 1 (the (shownCanvas
      (render exampleEnv emptyScene exampleCamera [] examplePhong onePixel))) 0 0 = (0, 0, 0, 0)"
    unfolding r2 shownCanvas_def using b by simp
  from onePixel_image(1,2,3) c1 c2 c3 c4 c5 c6 show ?thesis
    by (intro conjI)
qed

text \<open>
  C9. A pixel whose traversal ended with an intersection but without a colour is
  written as opaque black \<open>(0, 0, 0, 255)\<close>; storing it raises no error and does
  not depend on the shading function.
\<close>

theorem no_colour_gives_black:
  assumes "render env rootNode cameraArg lightPositionsArg phongValues v = Inr v'"
    and "length (img_data (imageData v)) = 4 * img_width (imageData v) * img_height (imageData v)"
    and "x < img_width (imageData v)" and "y < img_height (imageData v)"
    and "traversalAt env rootNode phongValues (img_width (imageData v)) (img_height (imageData v))
            x y (clearData v) = Inr s"
    and "intersection s = Some i" and "intersectionColor s = None"
  shows "pixelAt (img_width (imageData v)) (canvas v') x y = (0, 0, 0, 255) \<and>
     writePixel env phongValues (img_width (imageData v)) x y s \<noteq> Inl TypeError \<and>
     writePixel env phongValues (img_width (imageData v)) x y s
       = writePixel (env \<lparr> phong := otherPhong \<rparr>) phongValues (img_width (imageData v)) x y s"
proof -
  let ?w = "img_width (imageData v)"
  let ?h = "img_height (imageData v)"
  let ?p = "4 * (?w * y + x)"
  let ?black = "setData (?p + 3) 255 (setData (?p + 2) 0 (setData (?p + 1) 0 (setData (?p + 0) 0 s)))"
  from render_pixel [OF assms(1-4)] obtain s1 sw where
    at: "traversalAt env rootNode phongValues ?w ?h x y (clearData v) = Inr s1"
    and wr: "writePixel env phongValues ?w x y s1 = Inr sw"
    and len: "length (img_data (imageData s1)) = 4 * ?w * ?h"
    and px: "pixelAt ?w (canvas v') x y = pixelAt ?w (img_data (imageData sw)) x y"
    by blast
  have s1: "s1 = s"
    using at assms(5) by simp
  have idx: "?p + 3 < length (img_data (imageData s))"
    using pixel_index_bound [OF assms(3,4)] len s1 by simp
  have w1: "writePixel env phongValues ?w x y s = Inr ?black"
    using assms(6,7) by (simp add: writePixel_def)
  have w2: "writePixel (env \<lparr> phong := otherPhong \<rparr>) phongValues ?w x y s = Inr ?black"
    using assms(6,7) by (simp add: writePixel_def)
  have "sw = ?black"
    using wr w1 s1 by simp
  then have "pixelAt ?w (img_data (imageData sw)) x y = (0, 0, 0, 255)"
    using pixelAt_written [OF idx] by simp
  then have c1: "pixelAt ?w (canvas v') x y = (0, 0, 0, 255)"
    using px by simp
  have c2: "writePixel env phongValues ?w x y s \<noteq> Inl TypeError"
    by (simp add: w1)
  have c3: "writePixel env phongValues ?w x y s
       = writePixel (env \<lparr> phong := otherPhong \<rparr>) phongValues ?w x y s"
    by (simp only: w1 w2)
  from c1 c2 c3 show ?thesis
    by (intro conjI)
qed

theorem no_colour_gives_black_witness:
  "length (img_data (imageData onePixel))
     = 4 * img_width (imageData onePixel) * img_height (imageData onePixel) \<and>
   0 < img_width (imageData onePixel) \<and> 0 < img_height (imageData onePixel) \<and>
   render exampleEnv colourlessScene exampleCamera [] examplePhong onePixel \<noteq> Inl TypeError \<and>
   storedT (traversalAt exampleEnv colourlessScene examplePhong 1 1 0 0 (clearData onePixel)) \<noteq> None \<and>
   storedColor (traversalAt exampleEnv colourlessScene examplePhong 1 1 0 0 (clearData onePixel)) = None \<and>
   pixelAt 1 (the (shownCanvas
      (render exampleEnv colourlessScene exampleCamera [] examplePhong onePixel))) 0 0 = (0, 0, 0, 255)"
proof -
  obtain v1 where r1: "render exampleEnv colourlessScene exampleCamera [] examplePhong onePixel = Inr v1"
    by (simp add: colourlessScene_def render_defs example_defs visit_defs kernel_defs)
  obtain s1 i where t1: "traversalAt exampleEnv colourlessScene examplePhong 1 1 0 0 (clearData onePixel) = Inr s1"
    and i1: "intersection s1 = Some i" and c1: "intersectionColor s1 = None"
    by (simp add: traversalAt_first colourlessScene_def clearData_def example_defs visit_defs kernel_defs)
  have t1': "traversalAt exampleEnv colourlessScene examplePhong (img_width (imageData onePixel))
      (img_height (imageData onePixel)) 0 0 (clearData onePixel) = Inr s1"
    using t1 by (simp add: onePixel_image(4,5))
  from no_colour_gives_black [OF r1 onePixel_image(1,2,3) t1' i1 c1]
  have "pixelAt 1 (canvas v1) 0 0 = (0, 0, 0, 255)"
    by (simp add: onePixel_image(4,5))
  then have d1: "pixelAt 1 (the (shownCanvas
      (render exampleEnv colourlessScene exampleCamera [] examplePhong onePixel))) 0 0 = (0, 0, 0, 255)"
    unfolding r1 shownCanvas_def by simp
  have d2: "render exampleEnv colourlessScene exampleCamera [] examplePhong onePixel \<noteq> Inl TypeError"
    unfolding r1 by simp
  have d3: "storedT (traversalAt exampleEnv colourlessScene examplePhong 1 1 0 0 (clearData onePixel))
      \<noteq> None"
    unfolding t1 storedT_def using i1 by simp
  have d4: "storedColor (traversalAt exampleEnv colourlessScene examplePhong 1 1 0 0
      (clearData onePixel)) = None"
    unfolding t1 storedColor_def using c1 by simp
  from onePixel_image(1,2,3) d2 d3 d4 d1 show ?thesis
    by (intro conjI)
qed

text \<open>
  C10. \<open>render\<close> ignores its \<open>camera\<close> and \<open>lightPositions\<close> arguments: two
  calls that differ only there return the same state, pixel data included. The camera
  record and the ray are those of the camera node, with width 100, height 100 and alpha
  \<open>\<pi>/3\<close>; the light list starts empty at every pixel and holds, when the traversal
  has returned, the positions of the light nodes of the tree. A pixel that has an
  intersection and a colour shows the bytes of \<open>phong\<close> applied to that colour and
  intersection, the light positions gathered from the light nodes in this traversal,
  the \<open>phongValues\<close> and the origin of the visitor's camera record, which is the one of
  the last camera node of the tree.
\<close>

theorem render_ignores_camera_and_lights:
  "render env rootNode camera1 lights1 phongValues v
     = render env rootNode camera2 lights2 phongValues v \<and>
   (\<forall>s t. top (transformations s) = Some t \<longrightarrow>
      visitCameraNode env s =
        Inr (s \<lparr> camera := Some \<lparr> cam_origin = mulVec t (Vector 0 0 0 1), cam_width = 100,
                                  cam_height = 100, cam_alpha = pi / 3, cam_toWorld = t \<rparr>,
                 ray := Some (makeRay env (real (cur_x s)) (real (cur_y s))
                                \<lparr> cam_origin = mulVec t (Vector 0 0 0 1), cam_width = 100,
                                  cam_height = 100, cam_alpha = pi / 3, cam_toWorld = t \<rparr>) \<rparr>)) \<and>
   lightPositions (resetPixel x y v) = [] \<and>
   (\<forall>s'. accept env rootNode (resetPixel x y v) = Inr s' \<longrightarrow>
      lightPositions s' = lightsOf identity rootNode) \<and>
   (\<forall>v' s i c cam.
      render env rootNode camera1 lights1 phongValues v = Inr v' \<and>
      length (img_data (imageData v)) = 4 * img_width (imageData v) * img_height (imageData v) \<and>
      x < img_width (imageData v) \<and> y < img_height (imageData v) \<and>
      traversalAt env rootNode phongValues (img_width (imageData v)) (img_height (imageData v))
        x y (clearData v) = Inr s \<and>
      intersection s = Some i \<and> intersectionColor s = Some c \<and> camera s = Some cam \<longrightarrow>
      lightPositions s = lightsOf identity rootNode \<and>
      (\<forall>m. lastCamera identity rootNode = Some m \<longrightarrow> cam = cameraAt m) \<and>
      pixelAt (img_width (imageData v)) (canvas v') x y =
        (toUint8Clamp (vec_r (phong env c i (lightsOf identity rootNode) phongValues
                                (cam_origin cam)) * 255),
         toUint8Clamp (vec_g (phong env c i (lightsOf identity rootNode) phongValues
                                (cam_origin cam)) * 255),
         toUint8Clamp (vec_b (phong env c i (lightsOf identity rootNode) phongValues
                                (cam_origin cam)) * 255),
         255))"
proof -
  have c1: "render env rootNode camera1 lights1 phongValues v
     = render env rootNode camera2 lights2 phongValues v"
    by (simp add: render_def)
  have c2: "\<forall>s t. top (transformations s) = Some t \<longrightarrow>
      visitCameraNode env s =
        Inr (s \<lparr> camera := Some \<lparr> cam_origin = mulVec t (Vector 0 0 0 1), cam_width = 100,
                                  cam_height = 100, cam_alpha = pi / 3, cam_toWorld = t \<rparr>,
                 ray := Some (makeRay env (real (cur_x s)) (real (cur_y s))
                                \<lparr> cam_origin = mulVec t (Vector 0 0 0 1), cam_width = 100,
                                  cam_height = 100, cam_alpha = pi / 3, cam_toWorld = t \<rparr>) \<rparr>)"
    by (simp add: visitCameraNode_def Let_def)
  have c3: "lightPositions (resetPixel x y v) = []"
    by (simp add: resetPixel_def)
  have c4: "\<forall>s'. accept env rootNode (resetPixel x y v) = Inr s' \<longrightarrow>
      lightPositions s' = lightsOf identity rootNode"
  proof (intro allI impI)
    fix s'
    assume a: "accept env rootNode (resetPixel x y v) = Inr s'"
    have "top (transformations (resetPixel x y v)) = Some identity"
      by (simp add: resetPixel_def top_def)
    from accept_lights(1) [OF a this] show "lightPositions s' = lightsOf identity rootNode"
      by (simp add: c3)
  qed
  have c5: "\<forall>v' s i c cam.
      render env rootNode camera1 lights1 phongValues v = Inr v' \<and>
      length (img_data (imageData v)) = 4 * img_width (imageData v) * img_height (imageData v) \<and>
      x < img_width (imageData v) \<and> y < img_height (imageData v) \<and>
      traversalAt env rootNode phongValues (img_width (imageData v)) (img_height (imageData v))
        x y (clearData v) = Inr s \<and>
      intersection s = Some i \<and> intersectionColor s = Some c \<and> camera s = Some cam \<longrightarrow>
      lightPositions s = lightsOf identity rootNode \<and>
      (\<forall>m. lastCamera identity rootNode = Some m \<longrightarrow> cam = cameraAt m) \<and>
      pixelAt (img_width (imageData v)) (canvas v') x y =
        (toUint8Clamp (vec_r (phong env c i (lightsOf identity rootNode) phongValues
                                (cam_origin cam)) * 255),
         toUint8Clamp (vec_g (phong env c i (lightsOf identity rootNode) phongValues
                                (cam_origin cam)) * 255),
         toUint8Clamp (vec_b (phong env c i (lightsOf identity rootNode) phongValues
                                (cam_origin cam)) * 255),
         255)"
  proof (intro allI impI, elim conjE, intro conjI allI impI)
    fix v' s i c cam
    assume r: "render env rootNode camera1 lights1 phongValues v = Inr v'"
      and len: "length (img_data (imageData v))
          = 4 * img_width (imageData v) * img_height (imageData v)"
      and xw: "x < img_width (imageData v)" and yh: "y < img_height (imageData v)"
      and at: "traversalAt env rootNode phongValues (img_width (imageData v))
          (img_height (imageData v)) x y (clearData v) = Inr s"
      and i: "intersection s = Some i" and c: "intersectionColor s = Some c"
      and cam: "camera s = Some cam"
    show "lightPositions s = lightsOf identity rootNode"
      using at by (rule traversalAt_gathers(1))
    show "pixelAt (img_width (imageData v)) (canvas v') x y =
        (toUint8Clamp (vec_r (phong env c i (lightsOf identity rootNode) phongValues
                                (cam_origin cam)) * 255),
         toUint8Clamp (vec_g (phong env c i (lightsOf identity rootNode) phongValues
                                (cam_origin cam)) * 255),
         toUint8Clamp (vec_b (phong env c i (lightsOf identity rootNode) phongValues
                                (cam_origin cam)) * 255),
         255)"
      using r len xw yh at i c cam by (rule render_pixel_shaded)
    fix m
    assume "lastCamera identity rootNode = Some m"
    then show "cam = cameraAt m"
      using traversalAt_gathers(2) [OF at] cam by simp
  qed
  from c1 c2 c3 c4 c5 show ?thesis
    by (intro conjI)
qed

theorem render_ignores_camera_and_lights_witness:
  "render probeEnv sphereScene exampleCamera [] examplePhong onePixel
     = render probeEnv sphereScene otherCamera [Vector 5 5 5 1] examplePhong onePixel \<and>
   top (transformations (resetPixel 0 0 onePixel)) = Some identity \<and>
   storedCamera (visitCameraNode probeEnv (resetPixel 0 0 onePixel))
     = Some \<lparr> cam_origin = Vector 0 0 0 1, cam_width = 100, cam_height = 100,
              cam_alpha = pi / 3, cam_toWorld = identity \<rparr> \<and>
   accept probeEnv sphereScene (resetPixel 0 0 onePixel) \<noteq> Inl TypeError \<and>
   storedLights (accept probeEnv sphereScene (resetPixel 0 0 onePixel)) = Some [Vector 0 0 0 1] \<and>
   length (img_data (imageData onePixel))
     = 4 * img_width (imageData onePixel) * img_height (imageData onePixel) \<and>
   0 < img_width (imageData onePixel) \<and> 0 < img_height (imageData onePixel) \<and>
   lastCamera identity sphereScene = Some identity \<and>
   storedCamera (traversalAt probeEnv sphereScene examplePhong 1 1 0 0 (clearData onePixel))
     = Some (cameraAt identity) \<and>
   cam_origin (cameraAt identity) = Vector 0 0 0 1 \<and>
   arg_origin otherCamera = Vector 9 9 9 1 \<and>
   pixelAt 1 (the (shownCanvas
      (render probeEnv sphereScene otherCamera [Vector 5 5 5 1] examplePhong onePixel))) 0 0
     = (255, 255, 0, 255)"
proof -
  note inst = render_ignores_camera_and_lights [of probeEnv sphereScene otherCamera
      "[Vector 5 5 5 1]" examplePhong onePixel exampleCamera "[]" 0 0]
  have t: "top (transformations (resetPixel 0 0 onePixel)) = Some identity"
    by (simp add: resetPixel_def top_def)
  obtain s' where a: "accept probeEnv sphereScene (resetPixel 0 0 onePixel) = Inr s'"
    by (simp add: sphereScene_def example_defs2 visit_defs kernel_defs)
  have l: "lightsOf identity sphereScene = [Vector 0 0 0 1]"
    by (simp add: sphereScene_def example_defs kernel_defs)
  have lc: "lastCamera identity sphereScene = Some identity"
    by (simp add: sphereScene_def example_defs kernel_defs)
  have o: "cam_origin (cameraAt identity) = Vector 0 0 0 1"
    by (simp add: cameraAt_def kernel_defs)
  have oc: "arg_origin otherCamera = Vector 9 9 9 1"
    by (simp add: otherCamera_def)
  obtain v' where r: "render probeEnv sphereScene otherCamera [Vector 5 5 5 1] examplePhong onePixel
      = Inr v'"
    by (simp add: sphereScene_def render_defs example_defs2 visit_defs kernel_defs)
  obtain s i c cam where at: "traversalAt probeEnv sphereScene examplePhong
        (img_width (imageData onePixel)) (img_height (imageData onePixel)) 0 0 (clearData onePixel)
        = Inr s"
    and i: "intersection s = Some i" and c: "intersectionColor s = Some c"
    and cam: "camera s = Some cam"
    by (simp add: traversalAt_first sphereScene_def clearData_def example_defs2 visit_defs
        kernel_defs)
  from inst r onePixel_image(1,2,3) at i c cam
  have g: "lightPositions s = lightsOf identity sphereScene"
    and m: "\<forall>m. lastCamera identity sphereScene = Some m \<longrightarrow> cam = cameraAt m"
    and p: "pixelAt (img_width (imageData onePixel)) (canvas v') 0 0 =
        (toUint8Clamp (vec_r (phong probeEnv c i (lightsOf identity sphereScene) examplePhong
                                (cam_origin cam)) * 255),
         toUint8Clamp (vec_g (phong probeEnv c i (lightsOf identity sphereScene) examplePhong
                                (cam_origin cam)) * 255),
         toUint8Clamp (vec_b (phong probeEnv c i (lightsOf identity sphereScene) examplePhong
                                (cam_origin cam)) * 255),
         255)"
    by blast+
  have camEq: "cam = cameraAt identity"
    using m lc by simp
  have d1: "render probeEnv sphereScene exampleCamera [] examplePhong onePixel
     = render probeEnv sphereScene otherCamera [Vector 5 5 5 1] examplePhong onePixel"
    using inst by simp
  from inst t have "storedCamera (visitCameraNode probeEnv (resetPixel 0 0 onePixel))
     = Some \<lparr> cam_origin = mulVec identity (Vector 0 0 0 1), cam_width = 100, cam_height = 100,
              cam_alpha = pi / 3, cam_toWorld = identity \<rparr>"
    by (simp add: storedCamera_def)
  moreover have "mulVec identity (Vector 0 0 0 1) = Vector 0 0 0 1"
    by (simp add: kernel_defs)
  ultimately have d2: "storedCamera (visitCameraNode probeEnv (resetPixel 0 0 onePixel))
     = Some \<lparr> cam_origin = Vector 0 0 0 1, cam_width = 100, cam_height = 100,
              cam_alpha = pi / 3, cam_toWorld = identity \<rparr>"
    by simp
  have d3: "accept probeEnv sphereScene (resetPixel 0 0 onePixel) \<noteq> Inl TypeError"
    unfolding a by simp
  from inst a have "lightPositions s' = lightsOf identity sphereScene"
    by blast
  then have d4: "storedLights (accept probeEnv sphereScene (resetPixel 0 0 onePixel))
      = Some [Vector 0 0 0 1]"
    unfolding a storedLights_def using l by simp
  have at1: "traversalAt probeEnv sphereScene examplePhong 1 1 0 0 (clearData onePixel) = Inr s"
    using at by (simp only: onePixel_image(4,5))
  have d5: "storedCamera (traversalAt probeEnv sphereScene examplePhong 1 1 0 0
      (clearData onePixel)) = Some (cameraAt identity)"
    unfolding at1 storedCamera_def using cam camEq by simp
  have "pixelAt 1 (canvas v') 0 0 = (255, 255, 0, 255)"
    using p by (simp add: camEq o l onePixel_image(4,5) probeEnv_def exampleEnv_def
        probePhong_def toUint8Clamp_def)
  then have d6: "pixelAt 1 (the (shownCanvas
      (render probeEnv sphereScene otherCamera [Vector 5 5 5 1] examplePhong onePixel))) 0 0
     = (255, 255, 0, 255)"
    unfolding r shownCanvas_def by simp
  from d1 t d2 d3 d4 onePixel_image(1,2,3) lc d5 o oc d6 show ?thesis
    by (intro conjI)
qed

end
